theory Spec2Isabelle
  imports Complex_Main
begin

section \<open>Exceptions\<close>

text \<open>
  Every error the two source files raise themselves is a Python \<open>AttributeError\<close>; they
  differ only in the message.  Reading an attribute that was never assigned raises
  \<open>AttributeError\<close> too (\<open>No_attribute\<close>).  The \<open>ValueError\<close>s are those of the numpy
  calls in \<open>BaseModel.__init__\<close>.  The constructor of \<open>msg\<close> names the message and, in
  the comment, the line that raises it.
\<close>

datatype msg =
    Features_differ                 \<comment> \<open>base.py:23\<close>
  | Neither_N_nor_centroids         \<comment> \<open>msm/base.py:22\<close>
  | No_fit_instance                 \<comment> \<open>msm/base.py:68\<close>
  | Micro_must_be_fit               \<comment> \<open>msm/base.py:96, 104\<close>
  | Too_many_macrostates            \<comment> \<open>msm/base.py:175\<close>
  | Too_few_macrostates             \<comment> \<open>msm/base.py:187\<close>
  | Method_not_implemented string   \<comment> \<open>msm/base.py:201\<close>
  | Micro_fitting_first             \<comment> \<open>msm/base.py:216\<close>
  | Macro_must_be_fit               \<comment> \<open>msm/base.py:246, 254\<close>
  | No_attribute string             \<comment> \<open>an attribute read before it was assigned\<close>
  | Need_one_array                  \<comment> \<open>np.concatenate of an empty list\<close>
  | Dimensions_mismatch             \<comment> \<open>np.concatenate of arrays of different widths\<close>
  | Zero_size_reduction             \<comment> \<open>min or max along an axis of length 0\<close>
  | Index_out_of_range              \<comment> \<open>indexing an empty list\<close>
  | Other string                    \<comment> \<open>raised inside a numerical routine\<close>

datatype error = AttributeError msg | ValueError msg | IndexError msg | RuntimeError msg

section \<open>Strings: \<open>str.lower\<close>\<close>

text \<open>
  Method names are compared after \<open>method.lower()\<close>.  Strings are ASCII here: the
  letters \<open>A\<close> to \<open>Z\<close> (codes 65 to 90) move to \<open>a\<close> to \<open>z\<close>, every other character stays.
\<close>

definition lower_char :: "char \<Rightarrow> char" where
  "lower_char c =
     (let n = (of_char c :: nat) in if 65 \<le> n \<and> n \<le> 90 then char_of (n + 32) else c)"

definition lower :: "string \<Rightarrow> string" where
  "lower s = map lower_char s"

section \<open>Two-dimensional arrays\<close>

text \<open>
  A numpy array of two dimensions: its \<open>shape\<close> and its rows.  An array with no rows
  still has a width, so the shape is stored and not computed from the rows.
\<close>

record ndarray =
  shape0 :: nat
  shape1 :: nat
  rows :: "real list list"

definition wf_array :: "ndarray \<Rightarrow> bool" where
  "wf_array a \<longleftrightarrow>
     length (rows a) = shape0 a \<and> list_all (\<lambda>r. length r = shape1 a) (rows a)"

text \<open>
  \<open>np.concatenate(arrs)\<close> along axis 0: a \<open>ValueError\<close> for an empty list and for
  arrays whose widths differ, otherwise the rows of all arrays in order.
\<close>

definition concatenate :: "ndarray list \<Rightarrow> error + ndarray" where
  "concatenate arrs =
     (case arrs of
        [] \<Rightarrow> Inl (ValueError Need_one_array)
      | a # as \<Rightarrow>
          if list_all (\<lambda>b. shape1 b = shape1 a) as
          then Inr \<lparr>shape0 = sum_list (map shape0 arrs), shape1 = shape1 a,
                    rows = concat (map rows arrs)\<rparr>
          else Inl (ValueError Dimensions_mismatch))"

definition column :: "ndarray \<Rightarrow> nat \<Rightarrow> real list" where
  "column a j = map (\<lambda>r. r ! j) (rows a)"

text \<open>
  \<open>a.min(0)\<close> and \<open>a.max(0)\<close>: the minimum and maximum of every column; numpy raises
  \<open>ValueError\<close> when the array has no row, since neither reduction has an identity.
\<close>

definition min0 :: "ndarray \<Rightarrow> error + real list" where
  "min0 a =
     (if shape0 a = 0 then Inl (ValueError Zero_size_reduction)
      else Inr (map (\<lambda>j. Min (set (column a j))) [0..<shape1 a]))"

definition max0 :: "ndarray \<Rightarrow> error + real list" where
  "max0 a =
     (if shape0 a = 0 then Inl (ValueError Zero_size_reduction)
      else Inr (map (\<lambda>j. Max (set (column a j))) [0..<shape1 a]))"

text \<open>\<open>np.column_stack([lo, hi]).reshape(-1)\<close>: the pairs \<open>lo[j], hi[j]\<close> one after another.\<close>

definition column_stack_flat :: "real list \<Rightarrow> real list \<Rightarrow> real list" where
  "column_stack_flat lo hi = concat (map (\<lambda>(l, h). [l, h]) (zip lo hi))"

section \<open>\<open>BaseModel\<close> (base.py)\<close>

record base_kwargs =
  kw_db :: "bool option"
  kw_rev :: "bool option"
  kw_sparse :: "bool option"
  kw_lag :: "int option"

text \<open>
  The attributes of a \<open>BaseModel\<close>.  \<open>n_microstates\<close> and \<open>n_macrostates\<close> are assigned
  by the \<open>fit\<close> methods of the two models and are absent (\<open>None\<close>) before.
\<close>

record BaseModel =
  is_force_db :: bool
  is_reversible :: bool
  is_sparse :: bool
  lag :: int
  dataset :: "ndarray list"
  n_sets :: nat
  n_samples :: "nat list"
  extent :: "real list"
  n_features :: nat
  n_microstates :: "int option"
  n_macrostates :: "int option"

text \<open>
  \<open>BaseModel.__init__\<close> (base.py:4-24).  The statements run in the order of the source:
  the concatenation and the extent (lines 17, 18) come before the comparison of the
  feature widths (line 20).
\<close>

definition BaseModel_init :: "ndarray list \<Rightarrow> base_kwargs \<Rightarrow> error + BaseModel" where
  "BaseModel_init dat kwargs =
     (let features = map shape1 dat in
      case concatenate dat of
        Inl e \<Rightarrow> Inl e
      | Inr data_cat \<Rightarrow>
          (case min0 data_cat of
             Inl e \<Rightarrow> Inl e
           | Inr lo \<Rightarrow>
               (case max0 data_cat of
                  Inl e \<Rightarrow> Inl e
                | Inr hi \<Rightarrow>
                    (case features of
                       [] \<Rightarrow> Inl (IndexError Index_out_of_range)
                     | f # _ \<Rightarrow>
                         if list_all (\<lambda>g. g = f) features
                         then Inr \<lparr>is_force_db = (case kw_db kwargs of None \<Rightarrow> False | Some b \<Rightarrow> b),
                                   is_reversible = (case kw_rev kwargs of None \<Rightarrow> True | Some b \<Rightarrow> b),
                                   is_sparse = (case kw_sparse kwargs of None \<Rightarrow> False | Some b \<Rightarrow> b),
                                   lag = (case kw_lag kwargs of None \<Rightarrow> 1 | Some l \<Rightarrow> l),
                                   dataset = dat,
                                   n_sets = length dat,
                                   n_samples = map shape0 dat,
                                   extent = column_stack_flat lo hi,
                                   n_features = f,
                                   n_microstates = None,
                                   n_macrostates = None\<rparr>
                         else Inl (AttributeError Features_differ)))))"

section \<open>Results of a call that may raise\<close>

text \<open>
  A method either returns a value or raises; an object keeps the attributes assigned
  before the \<open>raise\<close>.  So a method that assigns attributes is a function from the state
  to a result and the state it leaves behind, in both cases.
\<close>

datatype 'a result = Raise error | Return 'a

definition lift :: "error + 'a \<Rightarrow> 'a result" where
  "lift r = (case r of Inl e \<Rightarrow> Raise e | Inr x \<Rightarrow> Return x)"

definition bindE ::
  "('s \<Rightarrow> 'a result \<times> 's) \<Rightarrow> ('a \<Rightarrow> 's \<Rightarrow> 'b result \<times> 's) \<Rightarrow> 's \<Rightarrow> 'b result \<times> 's" where
  "bindE f g s = (case f s of (Raise e, s') \<Rightarrow> (Raise e, s') | (Return x, s') \<Rightarrow> g x s')"

section \<open>The objects\<close>

text \<open>
  Keyword arguments of \<open>fit\<close>, \<open>predict\<close> and \<open>score\<close>.  \<open>fit\<close> reads \<open>method\<close>, and also
  \<open>tol\<close>, \<open>max_iter\<close>, \<open>fraction\<close> and \<open>shuffle\<close> into local variables it never uses; the
  whole dictionary is handed to the labelling routine.
\<close>

record kwargs =
  kw_method :: "string option"
  kw_tol :: "real option"
  kw_max_iter :: "int option"
  kw_fraction :: "real option"
  kw_shuffle :: "bool option"

definition no_kwargs :: kwargs where
  "no_kwargs = \<lparr>kw_method = None, kw_tol = None, kw_max_iter = None, kw_fraction = None,
                 kw_shuffle = None\<rparr>"

text \<open>
  Samples and centroids are arrays.  Labels, count and transition matrices and whatever
  the numerical routines return are values of a type \<open>'v\<close> the models never look into.
  An attribute that has not been assigned is \<open>None\<close>.
\<close>

record 'v BaseMicroMSM =
  micro_is_force_db :: bool
  micro_is_reversible :: bool
  micro_is_sparse :: bool
  micro_lag :: int
  centroids :: "ndarray option"
  micro_N :: "int option"
  micro_labels :: "'v option"
  micro_C :: "'v option"
  micro_T :: "'v option"

record 'v BaseMacroMSM =
  macro_is_force_db :: bool
  macro_is_reversible :: bool
  macro_is_sparse :: bool
  macro_lag :: int
  macro_N :: "int option"
  macro_labels :: "'v option"
  macro_C :: "'v option"
  macro_T :: "'v option"
  metastable_labels :: "'v option"
  metastable_sets :: "'v option"
  metastable_clusters :: "'v option"
  memberships :: "'v option"

text \<open>
  The objects refer to each other: a \<open>BaseMicroMSM\<close> holds its \<open>BaseModel\<close> as \<open>_base\<close>, a
  \<open>BaseMacroMSM\<close> holds the same \<open>BaseModel\<close> as \<open>_base\<close> and the \<open>BaseMicroMSM\<close> as
  \<open>_micro\<close>.  The state is therefore the objects together; \<open>issued\<close> collects the
  warnings given by \<open>warnings.warn\<close>.
\<close>

datatype warning = Sparse_recommended   \<comment> \<open>msm/base.py:180\<close>

record 'v micro_world =
  base :: BaseModel
  micro :: "'v BaseMicroMSM"

record 'v macro_world = "'v micro_world" +
  macro :: "'v BaseMacroMSM"
  issued :: "warning list"

datatype 'v self = MicroSelf "'v micro_world" | MacroSelf "'v macro_world"

section \<open>The numerical routines\<close>

text \<open>
  The modules \<open>classifier\<close>, \<open>cluster\<close>, \<open>score\<close> and \<open>analysis\<close> are not part of the two
  source files.  Their functions are parameters of the model, collected in one record;
  every theorem below holds for all of them.  Each may raise.  The classifiers and the
  clustering routines receive the calling object and return their result.  The
  coarse-graining routines return nothing and assign to the attributes of the
  \<open>BaseMacroMSM\<close> they receive, so they yield that object as they leave it.
\<close>

record 'v routines =
  classifier_KNeighborsClassifier ::
    "'v self \<Rightarrow> ndarray option \<Rightarrow> 'v option \<Rightarrow> kwargs \<Rightarrow> error + 'v"
  classifier_GaussianNB ::
    "'v self \<Rightarrow> ndarray option \<Rightarrow> 'v option \<Rightarrow> kwargs \<Rightarrow> error + 'v"
  cluster_KMeans :: "'v self \<Rightarrow> kwargs \<Rightarrow> error + (ndarray \<times> 'v)"
  cluster_MiniBatchKMeans :: "'v self \<Rightarrow> kwargs \<Rightarrow> error + (ndarray \<times> 'v)"
  cluster_KMedoids :: "'v self \<Rightarrow> kwargs \<Rightarrow> error + (ndarray \<times> 'v)"
  score_Silhouette_Score :: "ndarray \<Rightarrow> 'v option \<Rightarrow> kwargs \<Rightarrow> error + 'v"
  analysis_count_matrix :: "'v \<Rightarrow> int \<Rightarrow> bool \<Rightarrow> error + 'v"
  sym_T_estimator :: "'v \<Rightarrow> error + 'v"
  rev_T_estimator :: "'v \<Rightarrow> error + 'v"
  nonrev_T_matrix :: "'v \<Rightarrow> error + 'v"
  spectral_stationary_distribution :: "'v \<Rightarrow> bool \<Rightarrow> error + 'v"
  spectral_eigen_values :: "'v \<Rightarrow> int option \<Rightarrow> int option \<Rightarrow> bool \<Rightarrow> bool \<Rightarrow> error + 'v"
  timescales_mfpt :: "'v \<Rightarrow> int \<Rightarrow> int \<Rightarrow> bool \<Rightarrow> error + 'v"
  coarse_grain_GMM :: "'v macro_world \<Rightarrow> int \<Rightarrow> unit result \<times> 'v BaseMacroMSM"
  coarse_grain_HC :: "'v macro_world \<Rightarrow> int \<Rightarrow> unit result \<times> 'v BaseMacroMSM"
  coarse_grain_HMM :: "'v macro_world \<Rightarrow> int \<Rightarrow> unit result \<times> 'v BaseMacroMSM"
  coarse_grain_HPCA :: "'v macro_world \<Rightarrow> int \<Rightarrow> unit result \<times> 'v BaseMacroMSM"
  coarse_grain_PCCA :: "'v macro_world \<Rightarrow> int \<Rightarrow> int \<Rightarrow> unit result \<times> 'v BaseMacroMSM"

text \<open>
  The choice of the estimator, written out four times in the source
  (msm/base.py:57-63, 83-89, 205-211, 233-239): \<open>_is_reversible is True\<close> first, then
  \<open>_is_force_db is True\<close>.
\<close>

definition estimate_T :: "'v routines \<Rightarrow> bool \<Rightarrow> bool \<Rightarrow> 'v \<Rightarrow> error + 'v" where
  "estimate_T A reversible force_db C =
     (if reversible
      then (if force_db then sym_T_estimator A C else rev_T_estimator A C)
      else nonrev_T_matrix A C)"

section \<open>\<open>BaseMicroMSM\<close> (msm/base.py:10-144)\<close>

definition BaseMicroMSM_init :: "BaseModel \<Rightarrow> 'v micro_world" where
  "BaseMicroMSM_init b =
     \<lparr>base = b,
      micro = \<lparr>micro_is_force_db = is_force_db b, micro_is_reversible = is_reversible b,
               micro_is_sparse = is_sparse b, micro_lag = lag b, centroids = None,
               micro_N = None, micro_labels = None, micro_C = None, micro_T = None\<rparr>\<rparr>"

text \<open>
  Lines 26-33: the centroids are given.  \<open>self.centroids\<close>, \<open>self._N\<close> and
  \<open>self._base.n_microstates\<close> are assigned first; then two separate \<open>if\<close> statements
  compare the method name, and a name that is neither assigns nothing.
\<close>

definition fit_classify ::
  "'v routines \<Rightarrow> ndarray \<Rightarrow> kwargs \<Rightarrow> 'v micro_world \<Rightarrow> unit result \<times> 'v micro_world" where
  "fit_classify A c kw w =
     (let method = (case kw_method kw of None \<Rightarrow> ''KNeighborsClassifier'' | Some m \<Rightarrow> m);
          w1 = w\<lparr>micro := (micro w)\<lparr>centroids := Some c, micro_N := Some (int (shape0 c))\<rparr>,
                 base := (base w)\<lparr>n_microstates := Some (int (shape0 c))\<rparr>\<rparr>
      in bindE
           (\<lambda>s. if lower method = ''kneighborsclassifier''
                then (case classifier_KNeighborsClassifier A (MicroSelf s) None None kw of
                        Inl e \<Rightarrow> (Raise e, s)
                      | Inr l \<Rightarrow> (Return (), s\<lparr>micro := (micro s)\<lparr>micro_labels := Some l\<rparr>\<rparr>))
                else (Return (), s))
           (\<lambda>_ s. if lower method = ''gaussiannb''
                  then (case classifier_GaussianNB A (MicroSelf s) None None kw of
                          Inl e \<Rightarrow> (Raise e, s)
                        | Inr l \<Rightarrow> (Return (), s\<lparr>micro := (micro s)\<lparr>micro_labels := Some l\<rparr>\<rparr>))
                  else (Return (), s))
           w1)"

text \<open>
  Lines 36-47: the number of microstates is given.  \<open>self._N\<close> and
  \<open>self._base.n_microstates\<close> are assigned first; the \<open>if\<close>/\<open>elif\<close> chain has no \<open>else\<close>.
\<close>

definition store_clustering ::
  "error + (ndarray \<times> 'v) \<Rightarrow> 'v micro_world \<Rightarrow> unit result \<times> 'v micro_world" where
  "store_clustering r s =
     (case r of
        Inl e \<Rightarrow> (Raise e, s)
      | Inr (c, l) \<Rightarrow>
          (Return (), s\<lparr>micro := (micro s)\<lparr>centroids := Some c, micro_labels := Some l\<rparr>\<rparr>))"

definition fit_cluster ::
  "'v routines \<Rightarrow> int \<Rightarrow> kwargs \<Rightarrow> 'v micro_world \<Rightarrow> unit result \<times> 'v micro_world" where
  "fit_cluster A N kw w =
     (let method = (case kw_method kw of None \<Rightarrow> ''KMeans'' | Some m \<Rightarrow> m);
          w1 = w\<lparr>micro := (micro w)\<lparr>micro_N := Some N\<rparr>,
                 base := (base w)\<lparr>n_microstates := Some N\<rparr>\<rparr>
      in if lower method = ''kmeans''
         then store_clustering (cluster_KMeans A (MicroSelf w1) kw) w1
         else if lower method = ''minibatchkmeans''
         then store_clustering (cluster_MiniBatchKMeans A (MicroSelf w1) kw) w1
         else if lower method = ''kmedoids''
         then store_clustering (cluster_KMedoids A (MicroSelf w1) kw) w1
         else (Return (), w1))"

text \<open>Lines 50-53: the lag of this call, stored when it was given.\<close>

definition fit_lag :: "int option \<Rightarrow> 'v micro_world \<Rightarrow> int result \<times> 'v micro_world" where
  "fit_lag lg w =
     (case lg of
        None \<Rightarrow> (Return (micro_lag (micro w)), w)
      | Some l \<Rightarrow> (Return l, w\<lparr>micro := (micro w)\<lparr>micro_lag := l\<rparr>\<rparr>))"

text \<open>
  Lines 56-63: the count matrix from \<open>self.labels\<close>, then the transition matrix from
  \<open>self._C\<close>.  Reading \<open>self.labels\<close> raises when no labels were ever assigned.
\<close>

definition fit_matrices ::
  "'v routines \<Rightarrow> int \<Rightarrow> 'v micro_world \<Rightarrow> unit result \<times> 'v micro_world" where
  "fit_matrices A l w =
     (case micro_labels (micro w) of
        None \<Rightarrow> (Raise (AttributeError (No_attribute ''labels'')), w)
      | Some L \<Rightarrow>
          (case analysis_count_matrix A L l (micro_is_sparse (micro w)) of
             Inl e \<Rightarrow> (Raise e, w)
           | Inr C \<Rightarrow>
               (let w1 = w\<lparr>micro := (micro w)\<lparr>micro_C := Some C\<rparr>\<rparr> in
                case estimate_T A (micro_is_reversible (micro w1))
                       (micro_is_force_db (micro w1)) C of
                  Inl e \<Rightarrow> (Raise e, w1)
                | Inr T \<Rightarrow> (Return (), w1\<lparr>micro := (micro w1)\<lparr>micro_T := Some T\<rparr>\<rparr>))))"

text \<open>\<open>BaseMicroMSM.fit(N, centroids, lag, **kwargs)\<close>, lines 19-63.\<close>

definition micro_fit ::
  "'v routines \<Rightarrow> int option \<Rightarrow> ndarray option \<Rightarrow> int option \<Rightarrow> kwargs \<Rightarrow>
   'v micro_world \<Rightarrow> unit result \<times> 'v micro_world" where
  "micro_fit A N cen lg kw =
     bindE
       (\<lambda>w. case N of
              None \<Rightarrow>
                (case cen of
                   None \<Rightarrow> (Raise (AttributeError Neither_N_nor_centroids), w)
                 | Some c \<Rightarrow> fit_classify A c kw w)
            | Some n \<Rightarrow> fit_cluster A n kw w)
       (\<lambda>_. bindE (fit_lag lg) (\<lambda>l. fit_matrices A l))"

text \<open>\<open>predict\<close>, lines 66-73; a method name that is neither classifier returns \<open>None\<close>.\<close>

definition micro_predict ::
  "'v routines \<Rightarrow> ndarray \<Rightarrow> string \<Rightarrow> kwargs \<Rightarrow> 'v micro_world \<Rightarrow> 'v option result" where
  "micro_predict A dat method kw w =
     (case centroids (micro w) of
        None \<Rightarrow> Raise (AttributeError No_fit_instance)
      | Some _ \<Rightarrow>
          if lower method = ''kneighborsclassifier''
          then (case classifier_KNeighborsClassifier A (MicroSelf w) (Some dat) None kw of
                  Inl e \<Rightarrow> Raise e | Inr l \<Rightarrow> Return (Some l))
          else if lower method = ''gaussiannb''
          then (case classifier_GaussianNB A (MicroSelf w) (Some dat) None kw of
                  Inl e \<Rightarrow> Raise e | Inr l \<Rightarrow> Return (Some l))
          else Return None)"

text \<open>\<open>_count_matrix(lag)\<close>, lines 75-76, and \<open>_transition_matrix(lag)\<close>, lines 78-89.\<close>

definition micro_count_matrix_at :: "'v routines \<Rightarrow> int \<Rightarrow> 'v micro_world \<Rightarrow> 'v result" where
  "micro_count_matrix_at A l w =
     (case micro_labels (micro w) of
        None \<Rightarrow> Raise (AttributeError (No_attribute ''labels''))
      | Some L \<Rightarrow> lift (analysis_count_matrix A L l (micro_is_sparse (micro w))))"

definition micro_transition_matrix_at ::
  "'v routines \<Rightarrow> int option \<Rightarrow> 'v micro_world \<Rightarrow> 'v result" where
  "micro_transition_matrix_at A lg w =
     (case (case lg of
              Some l \<Rightarrow> micro_count_matrix_at A l w
            | None \<Rightarrow>
                (case micro_C (micro w) of
                   None \<Rightarrow> Raise (AttributeError (No_attribute ''_C''))
                 | Some C \<Rightarrow> Return C)) of
        Raise e \<Rightarrow> Raise e
      | Return C \<Rightarrow>
          lift (estimate_T A (micro_is_reversible (micro w)) (micro_is_force_db (micro w)) C))"

text \<open>The properties \<open>count_matrix\<close> and \<open>transition_matrix\<close>, lines 91-105.\<close>

definition micro_count_matrix :: "'v micro_world \<Rightarrow> 'v result" where
  "micro_count_matrix w =
     (case micro_C (micro w) of
        None \<Rightarrow> Raise (AttributeError Micro_must_be_fit) | Some C \<Rightarrow> Return C)"

definition micro_transition_matrix :: "'v micro_world \<Rightarrow> 'v result" where
  "micro_transition_matrix w =
     (case micro_T (micro w) of
        None \<Rightarrow> Raise (AttributeError Micro_must_be_fit) | Some T \<Rightarrow> Return T)"

text \<open>
  The queries of lines 111-133.  Each reads \<open>self._T\<close> as an argument of the call, so a
  missing \<open>_T\<close> raises before the routine is entered.
\<close>

definition micro_stationary_distribution :: "'v routines \<Rightarrow> 'v micro_world \<Rightarrow> 'v result" where
  "micro_stationary_distribution A w =
     (case micro_T (micro w) of
        None \<Rightarrow> Raise (AttributeError (No_attribute ''_T''))
      | Some T \<Rightarrow> lift (spectral_stationary_distribution A T (micro_is_sparse (micro w))))"

definition micro_eigenvalues ::
  "'v routines \<Rightarrow> int option \<Rightarrow> int option \<Rightarrow> 'v micro_world \<Rightarrow> 'v result" where
  "micro_eigenvalues A k ncv w =
     (case micro_T (micro w) of
        None \<Rightarrow> Raise (AttributeError (No_attribute ''_T''))
      | Some T \<Rightarrow>
          lift (spectral_eigen_values A T k ncv (micro_is_sparse (micro w))
                  (micro_is_reversible (micro w))))"

definition micro_mfpt :: "'v routines \<Rightarrow> int \<Rightarrow> int \<Rightarrow> 'v micro_world \<Rightarrow> 'v result" where
  "micro_mfpt A origin target w =
     (case micro_T (micro w) of
        None \<Rightarrow> Raise (AttributeError (No_attribute ''_T''))
      | Some T \<Rightarrow> lift (timescales_mfpt A T origin target (micro_is_sparse (micro w))))"

definition micro_score ::
  "'v routines \<Rightarrow> ndarray \<Rightarrow> 'v option \<Rightarrow> kwargs \<Rightarrow> 'v micro_world \<Rightarrow> 'v result" where
  "micro_score A X y kw w =
     (case y of
        None \<Rightarrow>
          (case micro_predict A X ''KNeighborsClassifier'' no_kwargs w of
             Raise e \<Rightarrow> Raise e
           | Return y' \<Rightarrow> lift (score_Silhouette_Score A X y' kw))
      | Some l \<Rightarrow> lift (score_Silhouette_Score A X (Some l) kw))"

text \<open>
  \<open>update(**kwargs)\<close>, lines 139-144: a loop over the items of the dictionary, in
  order.  The value of a key other than \<open>lag\<close> is never read; values are integers here.
\<close>

fun update_micro ::
  "'v routines \<Rightarrow> (string \<times> int) list \<Rightarrow> 'v micro_world \<Rightarrow> unit result \<times> 'v micro_world" where
  "update_micro A [] w = (Return (), w)"
| "update_micro A ((key, val) # items) w =
     (if key = ''lag''
      then (let w1 = w\<lparr>micro := (micro w)\<lparr>micro_lag := val\<rparr>\<rparr> in
            case micro_count_matrix_at A val w1 of
              Raise e \<Rightarrow> (Raise e, w1)
            | Return C \<Rightarrow>
                (let w2 = w1\<lparr>micro := (micro w1)\<lparr>micro_C := Some C\<rparr>\<rparr> in
                 case micro_transition_matrix_at A (Some val) w2 of
                   Raise e \<Rightarrow> (Raise e, w2)
                 | Return T \<Rightarrow>
                     update_micro A items (w2\<lparr>micro := (micro w2)\<lparr>micro_T := Some T\<rparr>\<rparr>)))
      else update_micro A items w)"

section \<open>\<open>BaseMacroMSM\<close> (msm/base.py:146-286)\<close>

text \<open>
  \<open>__init__\<close>, lines 157-163: the two reversibility flags are copied from the
  \<open>BaseModel\<close>, \<open>_is_sparse\<close> is set to \<open>False\<close> whatever the \<open>BaseModel\<close> says, and the lag
  is the microstate model's.
\<close>

definition BaseMacroMSM_init :: "'v micro_world \<Rightarrow> 'v macro_world" where
  "BaseMacroMSM_init w =
     \<lparr>base = base w, micro = micro w,
      macro = \<lparr>macro_is_force_db = is_force_db (base w),
               macro_is_reversible = is_reversible (base w),
               macro_is_sparse = False,
               macro_lag = micro_lag (micro w),
               macro_N = None, macro_labels = None, macro_C = None, macro_T = None,
               metastable_labels = None, metastable_sets = None,
               metastable_clusters = None, memberships = None\<rparr>,
      issued = []\<rparr>"

text \<open>
  Lines 166-188 of \<open>fit\<close>: \<open>_N\<close>, \<open>n_macrostates\<close> and the lag are assigned, then the
  checks run.  The result is the lag of this call.
\<close>

definition macro_validate ::
  "int \<Rightarrow> int option \<Rightarrow> 'v macro_world \<Rightarrow> int result \<times> 'v macro_world" where
  "macro_validate n lg w =
     (let w1 = w\<lparr>macro := (macro w)\<lparr>macro_N := Some n\<rparr>,
                 base := (base w)\<lparr>n_macrostates := Some n\<rparr>\<rparr>;
          l = (case lg of None \<Rightarrow> macro_lag (macro w1) | Some l' \<Rightarrow> l');
          w2 = (case lg of
                  None \<Rightarrow> w1
                | Some l' \<Rightarrow> w1\<lparr>macro := (macro w1)\<lparr>macro_lag := l'\<rparr>\<rparr>)
      in case micro_N (micro w2) of
           None \<Rightarrow> (Raise (AttributeError (No_attribute ''_N'')), w2)
         | Some m \<Rightarrow>
             if n > m - 1 then (Raise (AttributeError Too_many_macrostates), w2)
             else if n \<ge> 4000
             then (let w3 = w2\<lparr>macro := (macro w2)\<lparr>macro_is_sparse := is_sparse (base w2)\<rparr>\<rparr>
                   in if \<not> macro_is_sparse (macro w3)
                      then (Return l, w3\<lparr>issued := issued w3 @ [Sparse_recommended]\<rparr>)
                      else (Return l, w3))
             else if n < 4
             then (if macro_is_sparse (macro w2)
                   then (Raise (AttributeError Too_few_macrostates), w2)
                   else (Return l, w2))
             else (Return l, w2))"

text \<open>
  Lines 190-201: the \<open>if\<close>/\<open>elif\<close> chain over \<open>method.lower()\<close>, with its \<open>else\<close>.  The
  routine that runs leaves the \<open>BaseMacroMSM\<close> as it assigned it.
\<close>

definition ran :: "'v macro_world \<Rightarrow> unit result \<times> 'v BaseMacroMSM \<Rightarrow> unit result \<times> 'v macro_world" where
  "ran w r = (fst r, w\<lparr>macro := snd r\<rparr>)"

definition macro_dispatch ::
  "'v routines \<Rightarrow> int \<Rightarrow> int \<Rightarrow> string \<Rightarrow> 'v macro_world \<Rightarrow> unit result \<times> 'v macro_world" where
  "macro_dispatch A n l method w =
     (if lower method = ''gmm'' then ran w (coarse_grain_GMM A w n)
      else if lower method = ''hc'' then ran w (coarse_grain_HC A w n)
      else if lower method = ''hmm'' then ran w (coarse_grain_HMM A w n)
      else if lower method = ''hpca'' then ran w (coarse_grain_HPCA A w n)
      else if lower method = ''pcca'' then ran w (coarse_grain_PCCA A w n l)
      else (Raise (AttributeError (Method_not_implemented method)), w))"

text \<open>
  Lines 203-211: the count matrix from \<open>self.labels\<close>, then the guard of line 204 as it
  is written, \<open>not method.lower() == 'pcca' or not method.lower() == 'hpca'\<close>, around
  the estimation of the transition matrix.
\<close>

definition macro_matrices ::
  "'v routines \<Rightarrow> int \<Rightarrow> string \<Rightarrow> 'v macro_world \<Rightarrow> unit result \<times> 'v macro_world" where
  "macro_matrices A l method w =
     (case macro_labels (macro w) of
        None \<Rightarrow> (Raise (AttributeError (No_attribute ''labels'')), w)
      | Some L \<Rightarrow>
          (case analysis_count_matrix A L l (macro_is_sparse (macro w)) of
             Inl e \<Rightarrow> (Raise e, w)
           | Inr C \<Rightarrow>
               (let w1 = w\<lparr>macro := (macro w)\<lparr>macro_C := Some C\<rparr>\<rparr> in
                if \<not> lower method = ''pcca'' \<or> \<not> lower method = ''hpca''
                then (case estimate_T A (macro_is_reversible (macro w1))
                             (macro_is_force_db (macro w1)) C of
                        Inl e \<Rightarrow> (Raise e, w1)
                      | Inr T \<Rightarrow> (Return (), w1\<lparr>macro := (macro w1)\<lparr>macro_T := Some T\<rparr>\<rparr>))
                else (Return (), w1))))"

text \<open>\<open>BaseMacroMSM.fit(n_macrostates, lag, method)\<close>, lines 165-211.\<close>

definition macro_fit ::
  "'v routines \<Rightarrow> int \<Rightarrow> int option \<Rightarrow> string \<Rightarrow> 'v macro_world \<Rightarrow>
   unit result \<times> 'v macro_world" where
  "macro_fit A n lg method =
     bindE (macro_validate n lg)
       (\<lambda>l. bindE (macro_dispatch A n l method) (\<lambda>_. macro_matrices A l method))"

text \<open>
  \<open>predict\<close>, lines 214-221.  \<open>self.metastable_labels\<close> is read as an argument of the
  call, so it raises when a classifier is chosen and the attribute is missing.
\<close>

definition macro_predict ::
  "'v routines \<Rightarrow> ndarray \<Rightarrow> string \<Rightarrow> kwargs \<Rightarrow> 'v macro_world \<Rightarrow> 'v option result" where
  "macro_predict A dat method kw w =
     (case centroids (micro w) of
        None \<Rightarrow> Raise (AttributeError Micro_fitting_first)
      | Some _ \<Rightarrow>
          if lower method = ''kneighborsclassifier''
          then (case metastable_labels (macro w) of
                  None \<Rightarrow> Raise (AttributeError (No_attribute ''metastable_labels''))
                | Some ml \<Rightarrow>
                    (case classifier_KNeighborsClassifier A (MacroSelf w) (Some dat) (Some ml) kw of
                       Inl e \<Rightarrow> Raise e | Inr l \<Rightarrow> Return (Some l)))
          else if lower method = ''gaussiannb''
          then (case metastable_labels (macro w) of
                  None \<Rightarrow> Raise (AttributeError (No_attribute ''metastable_labels''))
                | Some ml \<Rightarrow>
                    (case classifier_GaussianNB A (MacroSelf w) (Some dat) (Some ml) kw of
                       Inl e \<Rightarrow> Raise e | Inr l \<Rightarrow> Return (Some l)))
          else Return None)"

text \<open>The properties and queries of lines 241-281.\<close>

definition macro_count_matrix :: "'v macro_world \<Rightarrow> 'v result" where
  "macro_count_matrix w =
     (case macro_C (macro w) of
        None \<Rightarrow> Raise (AttributeError Macro_must_be_fit) | Some C \<Rightarrow> Return C)"

definition macro_transition_matrix :: "'v macro_world \<Rightarrow> 'v result" where
  "macro_transition_matrix w =
     (case macro_T (macro w) of
        None \<Rightarrow> Raise (AttributeError Macro_must_be_fit) | Some T \<Rightarrow> Return T)"

definition macro_stationary_distribution :: "'v routines \<Rightarrow> 'v macro_world \<Rightarrow> 'v result" where
  "macro_stationary_distribution A w =
     (case macro_T (macro w) of
        None \<Rightarrow> Raise (AttributeError (No_attribute ''_T''))
      | Some T \<Rightarrow> lift (spectral_stationary_distribution A T (macro_is_sparse (macro w))))"

definition macro_eigenvalues ::
  "'v routines \<Rightarrow> int option \<Rightarrow> int option \<Rightarrow> 'v macro_world \<Rightarrow> 'v result" where
  "macro_eigenvalues A k ncv w =
     (case macro_T (macro w) of
        None \<Rightarrow> Raise (AttributeError (No_attribute ''_T''))
      | Some T \<Rightarrow>
          lift (spectral_eigen_values A T k ncv (macro_is_sparse (macro w))
                  (macro_is_reversible (macro w))))"

definition macro_mfpt :: "'v routines \<Rightarrow> int \<Rightarrow> int \<Rightarrow> 'v macro_world \<Rightarrow> 'v result" where
  "macro_mfpt A origin target w =
     (case macro_T (macro w) of
        None \<Rightarrow> Raise (AttributeError (No_attribute ''_T''))
      | Some T \<Rightarrow> lift (timescales_mfpt A T origin target (macro_is_sparse (macro w))))"

definition macro_score :: "'v routines \<Rightarrow> kwargs \<Rightarrow> 'v macro_world \<Rightarrow> 'v result" where
  "macro_score A kw w =
     (case centroids (micro w) of
        None \<Rightarrow> Raise (AttributeError (No_attribute ''centroids''))
      | Some c \<Rightarrow>
          (case metastable_labels (macro w) of
             None \<Rightarrow> Raise (AttributeError (No_attribute ''metastable_labels''))
           | Some ml \<Rightarrow> lift (score_Silhouette_Score A c (Some ml) kw)))"

section \<open>A small instance\<close>

text \<open>
  Concrete arrays, routines and models on which the definitions are evaluated.  The
  routines return numbers that tell them apart: the count matrix depends on the labels
  and the lag, each estimator adds its own offset, and the two coarse-graining routines
  that produce a transition matrix themselves store 999.
\<close>

definition demo_array :: ndarray where
  "demo_array = \<lparr>shape0 = 2, shape1 = 2, rows = [[0, 5], [3, 1]]\<rparr>"

definition demo_narrow :: ndarray where
  "demo_narrow = \<lparr>shape0 = 2, shape1 = 1, rows = [[4], [2]]\<rparr>"

definition demo_empty :: ndarray where
  "demo_empty = \<lparr>shape0 = 0, shape1 = 2, rows = []\<rparr>"

definition demo_base_kwargs :: "bool \<Rightarrow> base_kwargs" where
  "demo_base_kwargs sp = \<lparr>kw_db = None, kw_rev = None, kw_sparse = Some sp, kw_lag = None\<rparr>"

definition demo_base :: "bool \<Rightarrow> BaseModel" where
  "demo_base sp =
     \<lparr>is_force_db = False, is_reversible = True, is_sparse = sp, lag = 1,
      dataset = [demo_array], n_sets = 1, n_samples = [2], extent = [0, 3, 1, 5],
      n_features = 2, n_microstates = None, n_macrostates = None\<rparr>"

definition demo_assign :: "nat BaseMacroMSM \<Rightarrow> nat BaseMacroMSM" where
  "demo_assign M = M\<lparr>macro_labels := Some 7, metastable_labels := Some 8\<rparr>"

definition demo_routines :: "nat routines" where
  "demo_routines =
     \<lparr>classifier_KNeighborsClassifier = (\<lambda>_ _ _ _. Inr 1),
      classifier_GaussianNB = (\<lambda>_ _ _ _. Inr 2),
      cluster_KMeans = (\<lambda>_ _. Inr (demo_array, 3)),
      cluster_MiniBatchKMeans = (\<lambda>_ _. Inr (demo_array, 4)),
      cluster_KMedoids = (\<lambda>_ _. Inr (demo_array, 5)),
      score_Silhouette_Score = (\<lambda>_ _ _. Inr 6),
      analysis_count_matrix = (\<lambda>L l _. Inr (10 * L + nat l)),
      sym_T_estimator = (\<lambda>C. Inr (C + 100)),
      rev_T_estimator = (\<lambda>C. Inr (C + 200)),
      nonrev_T_matrix = (\<lambda>C. Inr (C + 300)),
      spectral_stationary_distribution = (\<lambda>T _. Inr T),
      spectral_eigen_values = (\<lambda>T _ _ _ _. Inr T),
      timescales_mfpt = (\<lambda>T _ _ _. Inr T),
      coarse_grain_GMM = (\<lambda>w _. (Return (), demo_assign (macro w))),
      coarse_grain_HC = (\<lambda>w _. (Return (), demo_assign (macro w))),
      coarse_grain_HMM = (\<lambda>w _. (Return (), demo_assign (macro w))),
      coarse_grain_HPCA = (\<lambda>w _. (Return (), (demo_assign (macro w))\<lparr>macro_T := Some 999\<rparr>)),
      coarse_grain_PCCA = (\<lambda>w _ _. (Return (), (demo_assign (macro w))\<lparr>macro_T := Some 999\<rparr>))\<rparr>"

text \<open>
  A microstate model fresh from its constructor, the same model after \<open>fit(N)\<close>, and a
  macrostate model constructed over the latter.
\<close>

definition demo_micro :: "bool \<Rightarrow> nat micro_world" where
  "demo_micro sp = BaseMicroMSM_init (demo_base sp)"

definition demo_fitted :: "bool \<Rightarrow> int \<Rightarrow> nat micro_world" where
  "demo_fitted sp N = snd (micro_fit demo_routines (Some N) None None no_kwargs (demo_micro sp))"

definition demo_macro :: "bool \<Rightarrow> int \<Rightarrow> nat macro_world" where
  "demo_macro sp N = BaseMacroMSM_init (demo_fitted sp N)"

text \<open>
  Two variants of the routines.  In \<open>demo_tagged\<close> every coarse-graining routine stores
  labels of its own, 1 to 5, so that the stored labels tell which routine ran.  In
  \<open>demo_strict\<close> the count matrix is refused for a lag that is not positive.
\<close>

definition demo_tagged :: "nat routines" where
  "demo_tagged =
     demo_routines
       \<lparr>coarse_grain_GMM := (\<lambda>w _. (Return (), (macro w)\<lparr>macro_labels := Some 1\<rparr>)),
        coarse_grain_HC := (\<lambda>w _. (Return (), (macro w)\<lparr>macro_labels := Some 2\<rparr>)),
        coarse_grain_HMM := (\<lambda>w _. (Return (), (macro w)\<lparr>macro_labels := Some 3\<rparr>)),
        coarse_grain_HPCA := (\<lambda>w _. (Return (), (macro w)\<lparr>macro_labels := Some 4\<rparr>)),
        coarse_grain_PCCA := (\<lambda>w _ _. (Return (), (macro w)\<lparr>macro_labels := Some 5\<rparr>))\<rparr>"

definition demo_strict :: "nat routines" where
  "demo_strict =
     demo_routines
       \<lparr>analysis_count_matrix :=
          (\<lambda>L l _. if l \<le> 0 then Inl (ValueError (Other ''lag'')) else Inr (10 * L + nat l))\<rparr>"

text \<open>
  The states a microstate model reaches from its constructor through calls of \<open>fit\<close>
  alone, every one of which raised.  \<open>update\<close> is not among the steps: it has no check
  that the model was fit and stores both matrices whenever labels are present.
\<close>

inductive only_failed_fits :: "'v routines \<Rightarrow> 'v micro_world \<Rightarrow> bool" for A where
  fresh: "only_failed_fits A (BaseMicroMSM_init b)"
| failed: "only_failed_fits A w \<Longrightarrow> micro_fit A N cen lg kw w = (Raise e, w') \<Longrightarrow>
     only_failed_fits A w'"

section \<open>Facts about the building blocks\<close>

lemma lower_lits:
  "lower ''KNeighborsClassifier'' = ''kneighborsclassifier''"
  "lower ''KMeans'' = ''kmeans''"
  "lower ''PCCA'' = ''pcca''"
  by code_simp+

lemma bindE_Return:
  "bindE f g s = (Return y, s') \<longleftrightarrow> (\<exists>x s1. f s = (Return x, s1) \<and> g x s1 = (Return y, s'))"
  by (auto simp: bindE_def split: prod.splits result.splits)

lemma bindE_Raise:
  "bindE f g s = (Raise e, s') \<longleftrightarrow>
     f s = (Raise e, s') \<or> (\<exists>x s1. f s = (Return x, s1) \<and> g x s1 = (Raise e, s'))"
  by (auto simp: bindE_def split: prod.splits result.splits)

lemma fit_matrices_Return:
  "fit_matrices A l w = (Return u, w') \<longleftrightarrow>
     (\<exists>L C T. micro_labels (micro w) = Some L \<and>
        analysis_count_matrix A L l (micro_is_sparse (micro w)) = Inr C \<and>
        estimate_T A (micro_is_reversible (micro w)) (micro_is_force_db (micro w)) C = Inr T \<and>
        w' = w\<lparr>micro := (micro w)\<lparr>micro_C := Some C, micro_T := Some T\<rparr>\<rparr>)"
  by (auto simp: fit_matrices_def Let_def split: option.splits sum.splits)

lemma store_clustering_flags:
  "store_clustering r s = (x, s') \<Longrightarrow>
     micro_is_reversible (micro s') = micro_is_reversible (micro s) \<and>
     micro_is_force_db (micro s') = micro_is_force_db (micro s) \<and>
     micro_is_sparse (micro s') = micro_is_sparse (micro s) \<and>
     micro_lag (micro s') = micro_lag (micro s)"
  by (auto simp: store_clustering_def split: sum.splits prod.splits)

lemma fit_cluster_flags:
  "fit_cluster A N kw w = (x, w') \<Longrightarrow>
     micro_is_reversible (micro w') = micro_is_reversible (micro w) \<and>
     micro_is_force_db (micro w') = micro_is_force_db (micro w) \<and>
     micro_is_sparse (micro w') = micro_is_sparse (micro w) \<and>
     micro_lag (micro w') = micro_lag (micro w)"
  by (auto simp: fit_cluster_def Let_def dest!: store_clustering_flags split: if_splits)

lemma fit_classify_flags:
  "fit_classify A c kw w = (x, w') \<Longrightarrow>
     micro_is_reversible (micro w') = micro_is_reversible (micro w) \<and>
     micro_is_force_db (micro w') = micro_is_force_db (micro w) \<and>
     micro_is_sparse (micro w') = micro_is_sparse (micro w) \<and>
     micro_lag (micro w') = micro_lag (micro w)"
  by (auto simp: fit_classify_def Let_def bindE_def split: if_splits sum.splits)


lemma fit_lag_eq:
  "fit_lag lg w = (r, w') \<Longrightarrow>
     r = Return (case lg of None \<Rightarrow> micro_lag (micro w) | Some l \<Rightarrow> l) \<and>
     w' = w\<lparr>micro := (micro w)\<lparr>micro_lag := (case lg of None \<Rightarrow> micro_lag (micro w) | Some l \<Rightarrow> l)\<rparr>\<rparr>"
  by (auto simp: fit_lag_def split: option.splits)

lemma lower_more:
  "lower ''kmeans'' = ''kmeans''" "lower ''pcca'' = ''pcca''"
  "lower ''bogus'' = ''bogus''"
  by code_simp+

lemma demo_fitted_eq:
  "demo_fitted sp N =
     \<lparr>base = (demo_base sp)\<lparr>n_microstates := Some N\<rparr>,
      micro = \<lparr>micro_is_force_db = False, micro_is_reversible = True,
               micro_is_sparse = sp, micro_lag = 1, centroids = Some demo_array,
               micro_N = Some N, micro_labels = Some 3, micro_C = Some 31,
               micro_T = Some 231\<rparr>\<rparr>"
  by (simp add: demo_fitted_def demo_micro_def BaseMicroMSM_init_def micro_fit_def bindE_def
      fit_cluster_def no_kwargs_def lower_lits store_clustering_def demo_routines_def
      fit_lag_def fit_matrices_def estimate_T_def demo_base_def)

lemma demo_fit_Return:
  "micro_fit demo_routines (Some N) None None no_kwargs (demo_micro sp) =
     (Return (), demo_fitted sp N)"
  by (simp add: demo_fitted_def demo_micro_def BaseMicroMSM_init_def micro_fit_def bindE_def
      fit_cluster_def no_kwargs_def lower_lits store_clustering_def demo_routines_def
      fit_lag_def fit_matrices_def estimate_T_def demo_base_def)

lemma demo_base_init: "BaseModel_init [demo_array] (demo_base_kwargs sp) = Inr (demo_base sp)"
  by (simp add: BaseModel_init_def concatenate_def demo_array_def min0_def max0_def column_def
      column_stack_flat_def demo_base_kwargs_def demo_base_def upt_rec)

lemma demo_micro_flags:
  "micro_is_reversible (micro (demo_micro sp))" "\<not> micro_is_force_db (micro (demo_micro sp))"
  "micro_is_sparse (micro (demo_micro sp)) = sp" "micro_lag (micro (demo_micro sp)) = 1"
  "micro_labels (micro (demo_micro sp)) = None" "micro_T (micro (demo_micro sp)) = None"
  "micro_C (micro (demo_micro sp)) = None" "centroids (micro (demo_micro sp)) = None"
  by (simp_all add: demo_micro_def BaseMicroMSM_init_def demo_base_def)

section \<open>The estimator of \<open>BaseMicroMSM.fit\<close>\<close>

text \<open>
  C5.  When \<open>BaseMicroMSM.fit\<close> returns, the stored count matrix is the one computed
  from the stored labels at the lag of the call, and the stored transition matrix is the
  result of exactly one estimator applied to that count matrix: the symmetric one when
  the model is reversible and forces detailed balance, the reversible one when it is
  reversible and does not, the non-reversible one when it is not reversible.  The three
  conditions exclude each other and cover all cases.
\<close>

theorem micro_fit_three_estimators:
  assumes "micro_fit A N cen lg kw w = (Return (), w')"
  shows "\<exists>L C T.
           micro_labels (micro w') = Some L \<and>
           analysis_count_matrix A L (case lg of None \<Rightarrow> micro_lag (micro w) | Some l \<Rightarrow> l)
             (micro_is_sparse (micro w)) = Inr C \<and>
           micro_C (micro w') = Some C \<and> micro_T (micro w') = Some T \<and>
           (micro_is_reversible (micro w) \<and> micro_is_force_db (micro w) \<longrightarrow>
              sym_T_estimator A C = Inr T) \<and>
           (micro_is_reversible (micro w) \<and> \<not> micro_is_force_db (micro w) \<longrightarrow>
              rev_T_estimator A C = Inr T) \<and>
           (\<not> micro_is_reversible (micro w) \<longrightarrow> nonrev_T_matrix A C = Inr T)"
proof -
  from assms obtain u w1 where
    first: "(case N of
               None \<Rightarrow> (case cen of
                          None \<Rightarrow> (Raise (AttributeError Neither_N_nor_centroids), w)
                        | Some c \<Rightarrow> fit_classify A c kw w)
             | Some n \<Rightarrow> fit_cluster A n kw w) = (Return u, w1)"
    and rest: "bindE (fit_lag lg) (\<lambda>l. fit_matrices A l) w1 = (Return (), w')"
    unfolding micro_fit_def bindE_Return by blast
  have flags: "micro_is_reversible (micro w1) = micro_is_reversible (micro w) \<and>
     micro_is_force_db (micro w1) = micro_is_force_db (micro w) \<and>
     micro_is_sparse (micro w1) = micro_is_sparse (micro w) \<and>
     micro_lag (micro w1) = micro_lag (micro w)"
    using first
    by (auto split: option.splits dest: fit_classify_flags fit_cluster_flags)
  from rest obtain l w2 where
    lagged: "fit_lag lg w1 = (Return l, w2)" and mats: "fit_matrices A l w2 = (Return (), w')"
    unfolding bindE_Return by blast
  from fit_lag_eq [OF lagged] flags have
    l: "l = (case lg of None \<Rightarrow> micro_lag (micro w) | Some l \<Rightarrow> l)"
    and w2: "w2 = w1\<lparr>micro := (micro w1)\<lparr>micro_lag := l\<rparr>\<rparr>"
    by (auto split: option.splits)
  from mats obtain L C T where
    "micro_labels (micro w2) = Some L"
    "analysis_count_matrix A L l (micro_is_sparse (micro w2)) = Inr C"
    "estimate_T A (micro_is_reversible (micro w2)) (micro_is_force_db (micro w2)) C = Inr T"
    "w' = w2\<lparr>micro := (micro w2)\<lparr>micro_C := Some C, micro_T := Some T\<rparr>\<rparr>"
    unfolding fit_matrices_Return by blast
  with flags l w2 show ?thesis
    by (auto simp: estimate_T_def split: if_splits)
qed

theorem micro_fit_three_estimators_witness:
  "micro_fit demo_routines (Some 10) None None no_kwargs (demo_micro False) =
     (Return (), demo_fitted False 10) \<and>
   (\<exists>L C T.
      micro_labels (micro (demo_fitted False 10)) = Some L \<and>
      analysis_count_matrix demo_routines L 1 False = Inr C \<and>
      micro_C (micro (demo_fitted False 10)) = Some C \<and>
      micro_T (micro (demo_fitted False 10)) = Some T \<and>
      rev_T_estimator demo_routines C = Inr T)"
proof -
  have h: "micro_fit demo_routines (Some 10) None None no_kwargs (demo_micro False) =
     (Return (), demo_fitted False 10)"
    by (rule demo_fit_Return)
  from micro_fit_three_estimators [OF h] h show ?thesis
    by (simp add: demo_micro_flags)
qed

section \<open>Both \<open>N\<close> and \<open>centroids\<close> given\<close>

text \<open>
  C9.  \<open>BaseMicroMSM.fit\<close> called with both \<open>N\<close> and \<open>centroids\<close> does exactly what it does
  with \<open>N\<close> alone: no check refuses the pair, the \<open>centroids\<close> argument is never read, and
  the centroids and labels stored afterwards are those the chosen clustering routine
  returned.
\<close>

theorem micro_fit_N_ignores_centroids:
  "micro_fit A (Some N) (Some c) lg kw w = micro_fit A (Some N) None lg kw w \<and>
   (let w1 = w\<lparr>micro := (micro w)\<lparr>micro_N := Some N\<rparr>,
               base := (base w)\<lparr>n_microstates := Some N\<rparr>\<rparr>;
        method = (case kw_method kw of None \<Rightarrow> ''KMeans'' | Some m \<Rightarrow> m);
        after = snd (micro_fit A (Some N) (Some c) lg kw w)
    in (lower method = ''kmeans'' \<and> cluster_KMeans A (MicroSelf w1) kw = Inr (c', l')
          \<longrightarrow> centroids (micro after) = Some c' \<and> micro_labels (micro after) = Some l') \<and>
       (lower method = ''minibatchkmeans'' \<and> cluster_MiniBatchKMeans A (MicroSelf w1) kw = Inr (c', l')
          \<longrightarrow> centroids (micro after) = Some c' \<and> micro_labels (micro after) = Some l') \<and>
       (lower method = ''kmedoids'' \<and> cluster_KMedoids A (MicroSelf w1) kw = Inr (c', l')
          \<longrightarrow> centroids (micro after) = Some c' \<and> micro_labels (micro after) = Some l'))"
  by (auto simp: micro_fit_def Let_def bindE_def fit_cluster_def store_clustering_def
        fit_lag_def fit_matrices_def
      split: prod.splits result.splits option.splits sum.splits if_splits)

theorem micro_fit_N_ignores_centroids_witness:
  "micro_fit demo_routines (Some 10) (Some demo_narrow) None no_kwargs (demo_micro False) =
     micro_fit demo_routines (Some 10) None None no_kwargs (demo_micro False) \<and>
   centroids (micro (snd (micro_fit demo_routines (Some 10) (Some demo_narrow) None no_kwargs
      (demo_micro False)))) = Some demo_array \<and>
   micro_labels (micro (snd (micro_fit demo_routines (Some 10) (Some demo_narrow) None no_kwargs
      (demo_micro False)))) = Some 3"
proof -
  have km: "cluster_KMeans demo_routines x no_kwargs = Inr (demo_array, 3)" for x
    by (simp add: demo_routines_def)
  have lm: "lower (case kw_method no_kwargs of None \<Rightarrow> ''KMeans'' | Some m \<Rightarrow> m) = ''kmeans''"
    by (simp add: no_kwargs_def lower_lits)
  from micro_fit_N_ignores_centroids
    [where A = demo_routines and N = 10 and c = demo_narrow and lg = None and kw = no_kwargs
       and w = "demo_micro False" and c' = demo_array and l' = 3]
  show ?thesis
    unfolding Let_def using km lm by blast
qed


section \<open>A method name \<open>BaseMicroMSM.fit\<close> does not know\<close>




section \<open>\<open>BaseMicroMSM.update\<close>\<close>

lemma update_micro_no_lag:
  "''lag'' \<notin> set (map fst items) \<Longrightarrow> update_micro A items w = (Return (), w)"
  by (induction items arbitrary: w) auto

lemma update_micro_frame:
  "micro_labels (micro (snd (update_micro A items w))) = micro_labels (micro w) \<and>
   centroids (micro (snd (update_micro A items w))) = centroids (micro w) \<and>
   micro_N (micro (snd (update_micro A items w))) = micro_N (micro w) \<and>
   base (snd (update_micro A items w)) = base w"
proof (induction items arbitrary: w)
  case Nil
  show ?case by simp
next
  case (Cons kv items)
  obtain key val where kv: "kv = (key, val)" by (cases kv)
  show ?case
    by (simp add: kv Let_def Cons.IH split: result.splits)
qed


text \<open>
  C6.  On a model with labels, \<open>update(lag=v)\<close> stores \<open>v\<close> as the lag and replaces the count
  matrix and the transition matrix by those computed from the stored labels at lag \<open>v\<close>;
  nothing else changes.  Whatever the keys, labels and centroids are left as they were,
  and a call without the key \<open>lag\<close> returns the state it was given.
\<close>

theorem update_lag_only:
  "(micro_labels (micro w) = Some L \<and>
    analysis_count_matrix A L v (micro_is_sparse (micro w)) = Inr C \<and>
    estimate_T A (micro_is_reversible (micro w)) (micro_is_force_db (micro w)) C = Inr T \<longrightarrow>
      update_micro A [(''lag'', v)] w =
        (Return (), w\<lparr>micro := (micro w)\<lparr>micro_lag := v, micro_C := Some C, micro_T := Some T\<rparr>\<rparr>)) \<and>
   micro_labels (micro (snd (update_micro A items w))) = micro_labels (micro w) \<and>
   centroids (micro (snd (update_micro A items w))) = centroids (micro w) \<and>
   (''lag'' \<notin> set (map fst items) \<longrightarrow> update_micro A items w = (Return (), w))"
  by (simp add: update_micro_no_lag update_micro_frame micro_count_matrix_at_def
      micro_transition_matrix_at_def lift_def)

theorem update_lag_only_witness:
  "update_micro demo_routines [(''lag'', 5)] (demo_fitted False 10) =
     (Return (), (demo_fitted False 10)\<lparr>micro := (micro (demo_fitted False 10))
        \<lparr>micro_lag := 5, micro_C := Some 35, micro_T := Some 235\<rparr>\<rparr>) \<and>
   update_micro demo_routines [(''sparse'', 1)] (demo_fitted False 10) =
     (Return (), demo_fitted False 10)"
  using update_lag_only [of "demo_fitted False 10" 3 demo_routines 5 35 235 "[(''lag'', 5)]"]
    update_lag_only [of "demo_fitted False 10" 3 demo_routines 5 35 235 "[(''sparse'', 1)]"]
  by (simp add: demo_fitted_eq demo_routines_def estimate_T_def)


section \<open>\<open>BaseMacroMSM.fit\<close>: the guard of line 204\<close>

lemma macro_validate_lag:
  "macro_validate n lg w = (Return l, w1) \<Longrightarrow>
     l = (case lg of None \<Rightarrow> macro_lag (macro w) | Some l' \<Rightarrow> l')"
  by (auto simp: macro_validate_def Let_def split: option.splits if_splits)

lemma macro_validate_AttributeError:
  "macro_validate n lg w = (Raise e, w1) \<Longrightarrow>
     e \<in> {AttributeError (No_attribute ''_N''), AttributeError Too_many_macrostates,
          AttributeError Too_few_macrostates}"
  by (auto simp: macro_validate_def Let_def split: option.splits if_splits)

lemma macro_matrices_Return:
  "macro_matrices A l method w = (Return u, w') \<longleftrightarrow>
     (\<exists>L C T. macro_labels (macro w) = Some L \<and>
        analysis_count_matrix A L l (macro_is_sparse (macro w)) = Inr C \<and>
        estimate_T A (macro_is_reversible (macro w)) (macro_is_force_db (macro w)) C = Inr T \<and>
        w' = w\<lparr>macro := (macro w)\<lparr>macro_C := Some C, macro_T := Some T\<rparr>\<rparr>)"
  by (auto simp: macro_matrices_def Let_def split: option.splits sum.splits)

lemma demo_macro_eq:
  "demo_macro sp N =
     \<lparr>base = (demo_base sp)\<lparr>n_microstates := Some N\<rparr>,
      micro = \<lparr>micro_is_force_db = False, micro_is_reversible = True,
               micro_is_sparse = sp, micro_lag = 1, centroids = Some demo_array,
               micro_N = Some N, micro_labels = Some 3, micro_C = Some 31,
               micro_T = Some 231\<rparr>,
      macro = \<lparr>macro_is_force_db = False, macro_is_reversible = True,
               macro_is_sparse = False, macro_lag = 1,
               macro_N = None, macro_labels = None, macro_C = None, macro_T = None,
               metastable_labels = None, metastable_sets = None,
               metastable_clusters = None, memberships = None\<rparr>,
      issued = []\<rparr>"
  by (simp add: demo_macro_def BaseMacroMSM_init_def demo_fitted_eq demo_base_def)

lemma demo_macro_fit_pcca:
  "n \<le> N - 1 \<Longrightarrow> 4 \<le> n \<Longrightarrow> n < 4000 \<Longrightarrow>
   macro_fit demo_routines n None ''PCCA'' (demo_macro sp N) =
     (Return (),
      (demo_macro sp N)\<lparr>macro := (macro (demo_macro sp N))\<lparr>macro_N := Some n,
          macro_labels := Some 7, metastable_labels := Some 8, macro_C := Some 71,
          macro_T := Some 271\<rparr>,
        base := (base (demo_macro sp N))\<lparr>n_macrostates := Some n\<rparr>\<rparr>)"
  by (simp add: demo_macro_eq macro_fit_def bindE_def macro_validate_def Let_def
      macro_dispatch_def lower_lits ran_def demo_routines_def demo_assign_def
      macro_matrices_def estimate_T_def demo_base_def)


text \<open>
  C1.  The guard \<open>not method.lower() == 'pcca' or not method.lower() == 'hpca'\<close> holds for
  every method name.  So whenever \<open>BaseMacroMSM.fit\<close> returns, with \<open>pcca\<close> and \<open>hpca\<close> as
  with any other method, the stored transition matrix is the estimate from the stored
  count matrix, itself computed from the stored labels at the lag of the call; a
  transition matrix assigned by the coarse-graining routine is overwritten.
\<close>

theorem macro_fit_always_reestimates:
  "(\<not> lower method = ''pcca'' \<or> \<not> lower method = ''hpca'') \<and>
   (macro_fit A n lg method w = (Return (), w') \<longrightarrow>
      (\<exists>L C T.
         macro_labels (macro w') = Some L \<and>
         analysis_count_matrix A L (case lg of None \<Rightarrow> macro_lag (macro w) | Some l \<Rightarrow> l)
           (macro_is_sparse (macro w')) = Inr C \<and>
         macro_C (macro w') = Some C \<and>
         estimate_T A (macro_is_reversible (macro w')) (macro_is_force_db (macro w')) C = Inr T \<and>
         macro_T (macro w') = Some T))"
proof (intro conjI impI)
  show "\<not> lower method = ''pcca'' \<or> \<not> lower method = ''hpca''" by auto
next
  assume "macro_fit A n lg method w = (Return (), w')"
  then obtain l w1 u w2 where
    v: "macro_validate n lg w = (Return l, w1)"
    and m: "macro_matrices A l method w2 = (Return (), w')"
    unfolding macro_fit_def bindE_Return by blast
  from m obtain L C T where
    "macro_labels (macro w2) = Some L"
    "analysis_count_matrix A L l (macro_is_sparse (macro w2)) = Inr C"
    "estimate_T A (macro_is_reversible (macro w2)) (macro_is_force_db (macro w2)) C = Inr T"
    "w' = w2\<lparr>macro := (macro w2)\<lparr>macro_C := Some C, macro_T := Some T\<rparr>\<rparr>"
    unfolding macro_matrices_Return by blast
  with macro_validate_lag [OF v] show
    "\<exists>L C T.
         macro_labels (macro w') = Some L \<and>
         analysis_count_matrix A L (case lg of None \<Rightarrow> macro_lag (macro w) | Some l \<Rightarrow> l)
           (macro_is_sparse (macro w')) = Inr C \<and>
         macro_C (macro w') = Some C \<and>
         estimate_T A (macro_is_reversible (macro w')) (macro_is_force_db (macro w')) C = Inr T \<and>
         macro_T (macro w') = Some T"
    by simp
qed

theorem macro_fit_always_reestimates_witness:
  "coarse_grain_PCCA demo_routines (demo_macro False 10) 5 1 =
     (Return (), (demo_assign (macro (demo_macro False 10)))\<lparr>macro_T := Some 999\<rparr>) \<and>
   fst (macro_fit demo_routines 5 None ''PCCA'' (demo_macro False 10)) = Return () \<and>
   macro_C (macro (snd (macro_fit demo_routines 5 None ''PCCA'' (demo_macro False 10)))) = Some 71 \<and>
   rev_T_estimator demo_routines 71 = Inr 271 \<and>
   macro_T (macro (snd (macro_fit demo_routines 5 None ''PCCA'' (demo_macro False 10)))) = Some 271"
proof -
  have h: "macro_fit demo_routines 5 None ''PCCA'' (demo_macro False 10) =
     (Return (), snd (macro_fit demo_routines 5 None ''PCCA'' (demo_macro False 10)))"
    by (simp add: demo_macro_fit_pcca)
  have p: "coarse_grain_PCCA demo_routines (demo_macro False 10) 5 1 =
     (Return (), (demo_assign (macro (demo_macro False 10)))\<lparr>macro_T := Some 999\<rparr>)"
    and r: "rev_T_estimator demo_routines 71 = Inr 271"
    by (simp_all add: demo_routines_def)
  from macro_fit_always_reestimates
    [of "''PCCA''" demo_routines 5 None "demo_macro False 10"
       "snd (macro_fit demo_routines 5 None ''PCCA'' (demo_macro False 10))"] h p r
  show ?thesis
    by (simp add: demo_macro_fit_pcca)
qed


section \<open>\<open>BaseMacroMSM.fit\<close>: the choice of the coarse-graining routine\<close>

lemma lower_tagged:
  "lower ''gMm'' = ''gmm''" "lower ''HC'' = ''hc''" "lower ''Hmm'' = ''hmm''"
  "lower ''hPCA'' = ''hpca''" "lower ''PcCa'' = ''pcca''" "lower ''bogus'' = ''bogus''"
  by code_simp+

text \<open>
  C8.  When a check of lines 174-188 raises, \<open>fit\<close> raises that error and no routine runs.
  When the checks pass, the method name is compared in lower case.  With each of the five
  names \<open>gmm\<close>, \<open>hc\<close>, \<open>hmm\<close>, \<open>hpca\<close>, \<open>pcca\<close> the whole \<open>fit\<close> is the run of that name's
  routine, and of no other, on the checked model: an error of the routine is the error of
  \<open>fit\<close>, and otherwise the matrices are computed on the model as the routine left it.
  With any other name \<open>fit\<close> raises the \<open>AttributeError\<close> that says the method is not
  implemented.  So with a name outside the five \<open>fit\<close> always raises an \<open>AttributeError\<close>,
  and its outcome is the same whatever the routines are.
\<close>

theorem macro_fit_dispatch:
  "(macro_validate n lg w = (Raise e, checked) \<longrightarrow>
      macro_fit A n lg meth w = (Raise e, checked)) \<and>
   (macro_validate n lg w = (Return l, checked) \<longrightarrow>
      (lower meth = ''gmm'' \<longrightarrow>
         macro_fit A n lg meth w =
           (case coarse_grain_GMM A checked n of
              (Raise e', M) \<Rightarrow> (Raise e', checked\<lparr>macro := M\<rparr>)
            | (Return u, M) \<Rightarrow> macro_matrices A l meth (checked\<lparr>macro := M\<rparr>))) \<and>
      (lower meth = ''hc'' \<longrightarrow>
         macro_fit A n lg meth w =
           (case coarse_grain_HC A checked n of
              (Raise e', M) \<Rightarrow> (Raise e', checked\<lparr>macro := M\<rparr>)
            | (Return u, M) \<Rightarrow> macro_matrices A l meth (checked\<lparr>macro := M\<rparr>))) \<and>
      (lower meth = ''hmm'' \<longrightarrow>
         macro_fit A n lg meth w =
           (case coarse_grain_HMM A checked n of
              (Raise e', M) \<Rightarrow> (Raise e', checked\<lparr>macro := M\<rparr>)
            | (Return u, M) \<Rightarrow> macro_matrices A l meth (checked\<lparr>macro := M\<rparr>))) \<and>
      (lower meth = ''hpca'' \<longrightarrow>
         macro_fit A n lg meth w =
           (case coarse_grain_HPCA A checked n of
              (Raise e', M) \<Rightarrow> (Raise e', checked\<lparr>macro := M\<rparr>)
            | (Return u, M) \<Rightarrow> macro_matrices A l meth (checked\<lparr>macro := M\<rparr>))) \<and>
      (lower meth = ''pcca'' \<longrightarrow>
         macro_fit A n lg meth w =
           (case coarse_grain_PCCA A checked n l of
              (Raise e', M) \<Rightarrow> (Raise e', checked\<lparr>macro := M\<rparr>)
            | (Return u, M) \<Rightarrow> macro_matrices A l meth (checked\<lparr>macro := M\<rparr>))) \<and>
      (lower meth \<notin> {''gmm'', ''hc'', ''hmm'', ''hpca'', ''pcca''} \<longrightarrow>
         macro_fit A n lg meth w =
           (Raise (AttributeError (Method_not_implemented meth)), checked))) \<and>
   (lower meth \<notin> {''gmm'', ''hc'', ''hmm'', ''hpca'', ''pcca''} \<longrightarrow>
      (\<exists>m. fst (macro_fit A n lg meth w) = Raise (AttributeError m)) \<and>
      macro_fit A n lg meth w = macro_fit A' n lg meth w)"
proof -
  have unknown: "\<exists>m. fst (macro_fit A n lg meth w) = Raise (AttributeError m)"
    if "lower meth \<notin> {''gmm'', ''hc'', ''hmm'', ''hpca'', ''pcca''}"
  proof (cases "macro_validate n lg w")
    case (Pair r w1)
    show ?thesis
    proof (cases r)
      case (Raise e)
      with Pair macro_validate_AttributeError [of n lg w e w1] show ?thesis
        by (auto simp: macro_fit_def bindE_def)
    next
      case (Return l')
      with Pair that show ?thesis
        by (simp add: macro_fit_def bindE_def macro_dispatch_def)
    qed
  qed
  have same: "macro_fit A n lg meth w = macro_fit A' n lg meth w"
    if "lower meth \<notin> {''gmm'', ''hc'', ''hmm'', ''hpca'', ''pcca''}"
    using that
    by (auto simp: macro_dispatch_def macro_fit_def bindE_def split: prod.splits result.splits)
  show ?thesis
    using unknown same
    by (auto simp: macro_dispatch_def macro_fit_def bindE_def ran_def
        split: prod.splits result.splits)
qed

theorem macro_fit_dispatch_witness:
  "fst (macro_validate 5 None (demo_macro False 10)) = Return 1 \<and>
   macro_labels (macro (snd (macro_fit demo_tagged 5 None ''gMm'' (demo_macro False 10)))) = Some 1 \<and>
   macro_labels (macro (snd (macro_fit demo_tagged 5 None ''HC'' (demo_macro False 10)))) = Some 2 \<and>
   macro_labels (macro (snd (macro_fit demo_tagged 5 None ''Hmm'' (demo_macro False 10)))) = Some 3 \<and>
   macro_labels (macro (snd (macro_fit demo_tagged 5 None ''hPCA'' (demo_macro False 10)))) = Some 4 \<and>
   macro_labels (macro (snd (macro_fit demo_tagged 5 None ''PcCa'' (demo_macro False 10)))) = Some 5 \<and>
   fst (macro_fit demo_tagged 5 None ''bogus'' (demo_macro False 10)) =
     Raise (AttributeError (Method_not_implemented ''bogus'')) \<and>
   macro_labels (macro (snd (macro_fit demo_tagged 5 None ''bogus'' (demo_macro False 10)))) = None \<and>
   fst (macro_fit demo_tagged 10 None ''gMm'' (demo_macro False 10)) =
     Raise (AttributeError Too_many_macrostates)"
proof -
  let ?W = "(demo_macro False 10)\<lparr>macro := (macro (demo_macro False 10))\<lparr>macro_N := Some 5\<rparr>,
        base := (base (demo_macro False 10))\<lparr>n_macrostates := Some 5\<rparr>\<rparr>"
  let ?X = "(demo_macro False 10)\<lparr>macro := (macro (demo_macro False 10))\<lparr>macro_N := Some 10\<rparr>,
        base := (base (demo_macro False 10))\<lparr>n_macrostates := Some 10\<rparr>\<rparr>"
  have v: "macro_validate 5 None (demo_macro False 10) = (Return 1, ?W)"
    by (simp add: macro_validate_def Let_def demo_macro_eq)
  have x: "macro_validate 10 None (demo_macro False 10) =
      (Raise (AttributeError Too_many_macrostates), ?X)"
    by (simp add: macro_validate_def Let_def demo_macro_eq)
  have r1: "macro_labels (macro (snd
      (case coarse_grain_GMM demo_tagged ?W 5 of
         (Raise e', M) \<Rightarrow> (Raise e', ?W\<lparr>macro := M\<rparr>)
       | (Return u, M) \<Rightarrow> macro_matrices demo_tagged 1 ''gMm'' (?W\<lparr>macro := M\<rparr>)))) = Some 1"
    by (simp add: demo_tagged_def demo_routines_def macro_matrices_def
        estimate_T_def lower_tagged demo_macro_eq demo_base_def)
  have r2: "macro_labels (macro (snd
      (case coarse_grain_HC demo_tagged ?W 5 of
         (Raise e', M) \<Rightarrow> (Raise e', ?W\<lparr>macro := M\<rparr>)
       | (Return u, M) \<Rightarrow> macro_matrices demo_tagged 1 ''HC'' (?W\<lparr>macro := M\<rparr>)))) = Some 2"
    by (simp add: demo_tagged_def demo_routines_def macro_matrices_def
        estimate_T_def lower_tagged demo_macro_eq demo_base_def)
  have r3: "macro_labels (macro (snd
      (case coarse_grain_HMM demo_tagged ?W 5 of
         (Raise e', M) \<Rightarrow> (Raise e', ?W\<lparr>macro := M\<rparr>)
       | (Return u, M) \<Rightarrow> macro_matrices demo_tagged 1 ''Hmm'' (?W\<lparr>macro := M\<rparr>)))) = Some 3"
    by (simp add: demo_tagged_def demo_routines_def macro_matrices_def
        estimate_T_def lower_tagged demo_macro_eq demo_base_def)
  have r4: "macro_labels (macro (snd
      (case coarse_grain_HPCA demo_tagged ?W 5 of
         (Raise e', M) \<Rightarrow> (Raise e', ?W\<lparr>macro := M\<rparr>)
       | (Return u, M) \<Rightarrow> macro_matrices demo_tagged 1 ''hPCA'' (?W\<lparr>macro := M\<rparr>)))) = Some 4"
    by (simp add: demo_tagged_def demo_routines_def macro_matrices_def
        estimate_T_def lower_tagged demo_macro_eq demo_base_def)
  have r5: "macro_labels (macro (snd
      (case coarse_grain_PCCA demo_tagged ?W 5 1 of
         (Raise e', M) \<Rightarrow> (Raise e', ?W\<lparr>macro := M\<rparr>)
       | (Return u, M) \<Rightarrow> macro_matrices demo_tagged 1 ''PcCa'' (?W\<lparr>macro := M\<rparr>)))) = Some 5"
    by (simp add: demo_tagged_def demo_routines_def macro_matrices_def
        estimate_T_def lower_tagged demo_macro_eq demo_base_def)
  from macro_fit_dispatch
    [where n = 5 and lg = None and w = "demo_macro False 10" and l = 1 and checked = ?W
       and A = demo_tagged and A' = demo_routines and meth = "''gMm''"
       and e = "AttributeError Too_many_macrostates"] v
  have e1: "macro_fit demo_tagged 5 None ''gMm'' (demo_macro False 10) =
      (case coarse_grain_GMM demo_tagged ?W 5 of
         (Raise e', M) \<Rightarrow> (Raise e', ?W\<lparr>macro := M\<rparr>)
       | (Return u, M) \<Rightarrow> macro_matrices demo_tagged 1 ''gMm'' (?W\<lparr>macro := M\<rparr>))"
    by (simp add: lower_tagged)
  from macro_fit_dispatch
    [where n = 5 and lg = None and w = "demo_macro False 10" and l = 1 and checked = ?W
       and A = demo_tagged and A' = demo_routines and meth = "''HC''"
       and e = "AttributeError Too_many_macrostates"] v
  have e2: "macro_fit demo_tagged 5 None ''HC'' (demo_macro False 10) =
      (case coarse_grain_HC demo_tagged ?W 5 of
         (Raise e', M) \<Rightarrow> (Raise e', ?W\<lparr>macro := M\<rparr>)
       | (Return u, M) \<Rightarrow> macro_matrices demo_tagged 1 ''HC'' (?W\<lparr>macro := M\<rparr>))"
    by (simp add: lower_tagged)
  from macro_fit_dispatch
    [where n = 5 and lg = None and w = "demo_macro False 10" and l = 1 and checked = ?W
       and A = demo_tagged and A' = demo_routines and meth = "''Hmm''"
       and e = "AttributeError Too_many_macrostates"] v
  have e3: "macro_fit demo_tagged 5 None ''Hmm'' (demo_macro False 10) =
      (case coarse_grain_HMM demo_tagged ?W 5 of
         (Raise e', M) \<Rightarrow> (Raise e', ?W\<lparr>macro := M\<rparr>)
       | (Return u, M) \<Rightarrow> macro_matrices demo_tagged 1 ''Hmm'' (?W\<lparr>macro := M\<rparr>))"
    by (simp add: lower_tagged)
  from macro_fit_dispatch
    [where n = 5 and lg = None and w = "demo_macro False 10" and l = 1 and checked = ?W
       and A = demo_tagged and A' = demo_routines and meth = "''hPCA''"
       and e = "AttributeError Too_many_macrostates"] v
  have e4: "macro_fit demo_tagged 5 None ''hPCA'' (demo_macro False 10) =
      (case coarse_grain_HPCA demo_tagged ?W 5 of
         (Raise e', M) \<Rightarrow> (Raise e', ?W\<lparr>macro := M\<rparr>)
       | (Return u, M) \<Rightarrow> macro_matrices demo_tagged 1 ''hPCA'' (?W\<lparr>macro := M\<rparr>))"
    by (simp add: lower_tagged)
  from macro_fit_dispatch
    [where n = 5 and lg = None and w = "demo_macro False 10" and l = 1 and checked = ?W
       and A = demo_tagged and A' = demo_routines and meth = "''PcCa''"
       and e = "AttributeError Too_many_macrostates"] v
  have e5: "macro_fit demo_tagged 5 None ''PcCa'' (demo_macro False 10) =
      (case coarse_grain_PCCA demo_tagged ?W 5 1 of
         (Raise e', M) \<Rightarrow> (Raise e', ?W\<lparr>macro := M\<rparr>)
       | (Return u, M) \<Rightarrow> macro_matrices demo_tagged 1 ''PcCa'' (?W\<lparr>macro := M\<rparr>))"
    by (simp add: lower_tagged)
  from macro_fit_dispatch
    [where n = 5 and lg = None and w = "demo_macro False 10" and l = 1 and checked = ?W
       and A = demo_tagged and A' = demo_routines and meth = "''bogus''"
       and e = "AttributeError Too_many_macrostates"] v
  have e6: "macro_fit demo_tagged 5 None ''bogus'' (demo_macro False 10) =
      (Raise (AttributeError (Method_not_implemented ''bogus'')), ?W)"
    by (simp add: lower_tagged)
  from macro_fit_dispatch
    [where n = 10 and lg = None and w = "demo_macro False 10" and l = 1 and checked = ?X
       and A = demo_tagged and A' = demo_routines and meth = "''gMm''"
       and e = "AttributeError Too_many_macrostates"] x
  have e7: "macro_fit demo_tagged 10 None ''gMm'' (demo_macro False 10) =
      (Raise (AttributeError Too_many_macrostates), ?X)"
    by simp
  have none: "macro_labels (macro (demo_macro False 10)) = None"
    by (simp add: demo_macro_eq)
  show ?thesis
    by (simp add: v e1 e2 e3 e4 e5 e6 e7 r1 r2 r3 r4 r5 none)
qed

section \<open>\<open>BaseModel.__init__\<close>: feature widths\<close>

text \<open>
  The comparison of the feature widths in line 20 comes after \<open>np.concatenate\<close> in line
  17, which has already raised when the widths differ.  So the \<open>AttributeError\<close> of line
  23 is never raised, and a list of arrays of one width with at least one row in all
  gives a model whose \<open>extent\<close> has two entries per feature.
\<close>

lemma concatenate_Inr:
  "concatenate dat = Inr c \<Longrightarrow>
     \<exists>a as. dat = a # as \<and> list_all (\<lambda>b. shape1 b = shape1 a) as \<and>
       shape1 c = shape1 a \<and> shape0 c = sum_list (map shape0 dat)"
  by (auto simp: concatenate_def split: list.splits if_splits)

lemma concatenate_wf:
  "list_all wf_array arrs \<Longrightarrow> concatenate arrs = Inr c \<Longrightarrow> wf_array c"
  by (auto simp: concatenate_def wf_array_def list_all_iff length_concat comp_def
      split: list.splits if_splits intro!: arg_cong [where f = sum_list])

lemma BaseModel_init_check_unreachable:
  "BaseModel_init dat kw \<noteq> Inl (AttributeError Features_differ)"
proof (cases "concatenate dat")
  case (Inl e)
  then have "BaseModel_init dat kw = Inl e"
    by (simp add: BaseModel_init_def)
  moreover from Inl have "e \<noteq> AttributeError Features_differ"
    by (auto simp: concatenate_def split: list.splits if_splits)
  ultimately show ?thesis by simp
next
  case (Inr c)
  from concatenate_Inr [OF this] obtain a as where
    dat: "dat = a # as" and same: "list_all (\<lambda>b. shape1 b = shape1 a) as"
    by blast
  from same have "list_all (\<lambda>g. g = shape1 a) (map shape1 as)"
    by (simp add: list_all_iff)
  with Inr show ?thesis
    unfolding dat
    by (simp add: BaseModel_init_def min0_def max0_def split: sum.splits)
qed

lemma BaseModel_init_mismatch:
  "\<not> list_all (\<lambda>b. shape1 b = shape1 a) as \<Longrightarrow>
     BaseModel_init (a # as) kw = Inl (ValueError Dimensions_mismatch)"
  by (simp add: BaseModel_init_def concatenate_def)

lemma length_column_stack_flat:
  "length (column_stack_flat lo hi) = 2 * min (length lo) (length hi)"
  unfolding column_stack_flat_def
  by (induction lo hi rule: list_induct2') auto

lemma BaseModel_init_equal_widths:
  assumes "list_all (\<lambda>b. shape1 b = shape1 a) as" and "sum_list (map shape0 (a # as)) \<noteq> 0"
  shows "\<exists>b. BaseModel_init (a # as) kw = Inr b \<and> n_features b = shape1 a \<and>
           length (extent b) = 2 * n_features b"
proof -
  define c where "c = \<lparr>shape0 = sum_list (map shape0 (a # as)), shape1 = shape1 a,
                    rows = concat (map rows (a # as))\<rparr>"
  have cat: "concatenate (a # as) = Inr c"
    using assms(1) by (simp add: concatenate_def c_def)
  have rows: "shape0 c \<noteq> 0" and width: "shape1 c = shape1 a"
    using assms(2) by (simp_all add: c_def)
  from assms(1) have same: "list_all (\<lambda>g. g = shape1 a) (map shape1 as)"
    by (simp add: list_all_iff)
  show ?thesis
    using rows
    by (simp add: BaseModel_init_def cat min0_def max0_def same width
        length_column_stack_flat)
qed

lemma BaseModel_init_no_rows:
  "BaseModel_init [demo_empty] kw = Inl (ValueError Zero_size_reduction)"
  by (simp add: BaseModel_init_def concatenate_def min0_def demo_empty_def)


text \<open>
  C4.  Two arrays of widths 1 and 2: the constructor raises the \<open>ValueError\<close> of
  \<open>np.concatenate\<close>, not the \<open>AttributeError\<close> that the check of line 20 was written to
  raise.
\<close>

theorem BaseModel_init_width_mismatch:
  "BaseModel_init [demo_narrow, demo_array] (demo_base_kwargs False) =
     Inl (ValueError Dimensions_mismatch)"
  by (simp add: BaseModel_init_def concatenate_def demo_narrow_def demo_array_def)


section \<open>What a \<open>fit\<close> that raises leaves behind\<close>

lemma fit_matrices_Raise_T:
  "fit_matrices A l w = (Raise e, w') \<Longrightarrow> micro_T (micro w') = micro_T (micro w)"
  by (auto simp: fit_matrices_def Let_def split: option.splits sum.splits)

lemma store_clustering_T:
  "store_clustering r s = (x, s') \<Longrightarrow> micro_T (micro s') = micro_T (micro s)"
  by (auto simp: store_clustering_def split: sum.splits prod.splits)

lemma fit_cluster_T:
  "fit_cluster A N kw w = (x, w') \<Longrightarrow> micro_T (micro w') = micro_T (micro w)"
  by (auto simp: fit_cluster_def Let_def dest!: store_clustering_T split: if_splits)

lemma fit_classify_T:
  "fit_classify A c kw w = (x, w') \<Longrightarrow> micro_T (micro w') = micro_T (micro w)"
  by (auto simp: fit_classify_def Let_def bindE_def split: if_splits sum.splits)

lemma micro_fit_Raise_T:
  assumes "micro_fit A N cen lg kw w = (Raise e, w')"
  shows "micro_T (micro w') = micro_T (micro w)"
proof -
  let ?first = "\<lambda>w. case N of
               None \<Rightarrow> (case cen of
                          None \<Rightarrow> (Raise (AttributeError Neither_N_nor_centroids), w)
                        | Some c \<Rightarrow> fit_classify A c kw w)
             | Some n \<Rightarrow> fit_cluster A n kw w"
  have first: "micro_T (micro s) = micro_T (micro w)" if "?first w = (x, s)" for x s
    using that by (auto split: option.splits dest: fit_classify_T fit_cluster_T)
  from assms consider
    (a) "?first w = (Raise e, w')"
    | (b) u w1 where "?first w = (Return u, w1)"
        "bindE (fit_lag lg) (\<lambda>l. fit_matrices A l) w1 = (Raise e, w')"
    unfolding micro_fit_def bindE_Raise [of ?first] by blast
  then show ?thesis
  proof cases
    case a
    then show ?thesis by (rule first)
  next
    case b
    from b(2) obtain l w2 where
      "fit_lag lg w1 = (Return l, w2)" "fit_matrices A l w2 = (Raise e, w')"
      unfolding bindE_Raise by (auto simp: fit_lag_def split: option.splits)
    with first [OF b(1)] show ?thesis
      by (auto dest!: fit_matrices_Raise_T fit_lag_eq)
  qed
qed

lemma macro_validate_Raise:
  "macro_validate n lg w = (Raise e, w') \<Longrightarrow>
     w' = w\<lparr>macro := (macro w)\<lparr>macro_N := Some n,
               macro_lag := (case lg of None \<Rightarrow> macro_lag (macro w) | Some l \<Rightarrow> l)\<rparr>,
            base := (base w)\<lparr>n_macrostates := Some n\<rparr>\<rparr>"
  by (auto simp: macro_validate_def Let_def split: option.splits if_splits)

lemma demo_macro_fit_too_many:
  "macro_fit demo_routines 10 (Some 2) ''PCCA'' (demo_macro sp 10) =
     (Raise (AttributeError Too_many_macrostates),
      (demo_macro sp 10)\<lparr>macro := (macro (demo_macro sp 10))\<lparr>macro_N := Some 10, macro_lag := 2\<rparr>,
        base := (base (demo_macro sp 10))\<lparr>n_macrostates := Some 10\<rparr>\<rparr>)"
  by (simp add: demo_macro_eq macro_fit_def bindE_def macro_validate_def Let_def)

lemma demo_micro_fit_bogus:
  "micro_fit demo_routines (Some 10) None None (no_kwargs\<lparr>kw_method := Some ''bogus''\<rparr>)
      (demo_micro sp) =
     (Raise (AttributeError (No_attribute ''labels'')),
      (demo_micro sp)\<lparr>micro := (micro (demo_micro sp))\<lparr>micro_N := Some 10\<rparr>,
        base := (base (demo_micro sp))\<lparr>n_microstates := Some 10\<rparr>\<rparr>)"
  by (simp add: micro_fit_def bindE_def fit_cluster_def Let_def no_kwargs_def lower_more
      fit_lag_def fit_matrices_def demo_micro_flags)


text \<open>
  C2, as the code has it.  Neither \<open>fit\<close> buffers its assignments.  A
  \<open>BaseMicroMSM.fit\<close> that raises leaves the model untouched when neither \<open>N\<close> nor
  \<open>centroids\<close> was given, and in every case leaves the transition matrix as it was.  A
  \<open>BaseMacroMSM.fit\<close> that fails one of its checks has already stored the number of
  macrostates, in the model and in the \<open>BaseModel\<close>, and the lag of the call; everything
  else is as before.
\<close>

theorem fit_failure_effects:
  "micro_fit A None None lg kw w = (Raise (AttributeError Neither_N_nor_centroids), w) \<and>
   (micro_fit A N cen lg kw w = (Raise e, w') \<longrightarrow> micro_T (micro w') = micro_T (micro w)) \<and>
   (fst (macro_validate n lg' W) = Raise e' \<longrightarrow>
      macro_fit A n lg' method W =
        (Raise e',
         W\<lparr>macro := (macro W)\<lparr>macro_N := Some n,
               macro_lag := (case lg' of None \<Rightarrow> macro_lag (macro W) | Some l \<Rightarrow> l)\<rparr>,
            base := (base W)\<lparr>n_macrostates := Some n\<rparr>\<rparr>))"
proof (intro conjI impI)
  show "micro_fit A None None lg kw w = (Raise (AttributeError Neither_N_nor_centroids), w)"
    by (simp add: micro_fit_def bindE_def)
next
  assume "micro_fit A N cen lg kw w = (Raise e, w')"
  then show "micro_T (micro w') = micro_T (micro w)" by (rule micro_fit_Raise_T)
next
  assume r: "fst (macro_validate n lg' W) = Raise e'"
  then have v: "macro_validate n lg' W = (Raise e', snd (macro_validate n lg' W))"
    by (cases "macro_validate n lg' W") simp
  from macro_validate_Raise [OF v] v
  show "macro_fit A n lg' method W =
        (Raise e',
         W\<lparr>macro := (macro W)\<lparr>macro_N := Some n,
               macro_lag := (case lg' of None \<Rightarrow> macro_lag (macro W) | Some l \<Rightarrow> l)\<rparr>,
            base := (base W)\<lparr>n_macrostates := Some n\<rparr>\<rparr>)"
    by (simp add: macro_fit_def bindE_def)
qed

theorem fit_failure_effects_witness:
  "micro_fit demo_routines None None None no_kwargs (demo_micro False) =
     (Raise (AttributeError Neither_N_nor_centroids), demo_micro False) \<and>
   fst (micro_fit demo_routines (Some 10) None None (no_kwargs\<lparr>kw_method := Some ''bogus''\<rparr>)
      (demo_micro False)) = Raise (AttributeError (No_attribute ''labels'')) \<and>
   micro_T (micro (snd (micro_fit demo_routines (Some 10) None None
      (no_kwargs\<lparr>kw_method := Some ''bogus''\<rparr>) (demo_micro False)))) =
     micro_T (micro (demo_micro False)) \<and>
   fst (macro_validate 10 (Some 2) (demo_macro False 10)) =
     Raise (AttributeError Too_many_macrostates) \<and>
   macro_fit demo_routines 10 (Some 2) ''PCCA'' (demo_macro False 10) =
     (Raise (AttributeError Too_many_macrostates),
      (demo_macro False 10)\<lparr>macro := (macro (demo_macro False 10))\<lparr>macro_N := Some 10, macro_lag := 2\<rparr>,
        base := (base (demo_macro False 10))\<lparr>n_macrostates := Some 10\<rparr>\<rparr>)"
proof -
  have v: "fst (macro_validate 10 (Some 2) (demo_macro False 10)) =
     Raise (AttributeError Too_many_macrostates)"
    by (simp add: demo_macro_eq macro_validate_def Let_def)
  from fit_failure_effects
    [of demo_routines None no_kwargs "demo_micro False" "Some 10" None
      "AttributeError (No_attribute ''labels'')"
      "snd (micro_fit demo_routines (Some 10) None None
         (no_kwargs\<lparr>kw_method := Some ''bogus''\<rparr>) (demo_micro False))"
      10 "Some 2" "demo_macro False 10" "AttributeError Too_many_macrostates" "''PCCA''"]
    v
  show ?thesis
    by (simp add: demo_micro_fit_bogus)
qed


text \<open>
  The claim C2 as stated fails: \<open>fit(10, lag=2)\<close> on a macrostate model over ten
  microstates raises, and the lag has changed from 1 to 2 and the number of macrostates
  from absent to 10.
\<close>

theorem fit_leaves_partial_update:
  "fst (macro_fit demo_routines 10 (Some 2) ''PCCA'' (demo_macro False 10)) =
     Raise (AttributeError Too_many_macrostates) \<and>
   macro_lag (macro (demo_macro False 10)) = 1 \<and>
   macro_lag (macro (snd (macro_fit demo_routines 10 (Some 2) ''PCCA'' (demo_macro False 10)))) = 2 \<and>
   macro_N (macro (demo_macro False 10)) = None \<and>
   macro_N (macro (snd (macro_fit demo_routines 10 (Some 2) ''PCCA'' (demo_macro False 10)))) =
     Some 10 \<and>
   n_macrostates (base (demo_macro False 10)) = None \<and>
   n_macrostates (base (snd (macro_fit demo_routines 10 (Some 2) ''PCCA''
     (demo_macro False 10)))) = Some 10"
  by (simp add: demo_macro_fit_too_many) (simp add: demo_macro_eq demo_base_def)

section \<open>\<open>BaseMacroMSM.fit\<close>: the checks of lines 174-188\<close>

lemma demo_macro_fit_small:
  "macro_fit demo_routines 3 None ''PCCA'' (demo_macro sp 10) =
     (Return (),
      (demo_macro sp 10)\<lparr>macro := (macro (demo_macro sp 10))\<lparr>macro_N := Some 3,
          macro_labels := Some 7, metastable_labels := Some 8, macro_C := Some 71,
          macro_T := Some 271\<rparr>,
        base := (base (demo_macro sp 10))\<lparr>n_macrostates := Some 3\<rparr>\<rparr>)"
  by (simp add: demo_macro_eq macro_fit_def bindE_def macro_validate_def Let_def
      macro_dispatch_def lower_lits ran_def demo_routines_def demo_assign_def
      macro_matrices_def estimate_T_def demo_base_def)

lemma demo_macro_fit_large:
  "macro_fit demo_routines 4000 None ''PCCA'' (demo_macro sp 5000) =
     (Return (),
      (demo_macro sp 5000)\<lparr>macro := (macro (demo_macro sp 5000))\<lparr>macro_N := Some 4000,
          macro_is_sparse := sp,
          macro_labels := Some 7, metastable_labels := Some 8, macro_C := Some 71,
          macro_T := Some 271\<rparr>,
        base := (base (demo_macro sp 5000))\<lparr>n_macrostates := Some 4000\<rparr>,
        issued := (if sp then [] else [Sparse_recommended])\<rparr>)"
  by (simp add: demo_macro_eq macro_fit_def bindE_def macro_validate_def Let_def
      macro_dispatch_def lower_lits ran_def demo_routines_def demo_assign_def
      macro_matrices_def estimate_T_def demo_base_def)

lemma demo_macro_sel:
  "micro_N (micro (demo_macro sp N)) = Some N" "is_sparse (base (demo_macro sp N)) = sp"
  "micro_is_sparse (micro (demo_macro sp N)) = sp" "\<not> macro_is_sparse (macro (demo_macro sp N))"
  "macro_lag (macro (demo_macro sp N)) = 1" "issued (demo_macro sp N) = []"
  "centroids (micro (demo_macro sp N)) = Some demo_array"
  by (simp_all add: demo_macro_eq demo_base_def)


text \<open>
  C3, as the code has it.  With \<open>m\<close> microstates, \<open>fit\<close> raises when the number of
  macrostates exceeds \<open>m - 1\<close>.  Below four macrostates it raises when the macrostate
  model's own \<open>_is_sparse\<close> is set, and passes the checks when it is not; the constructor
  clears that flag whatever the \<open>BaseModel\<close> says.  From 4000 macrostates on the flag is
  copied from the \<open>BaseModel\<close>: when that is dense, one warning is issued, nothing is
  raised and \<open>fit\<close> goes on with the choice of the routine and the matrices; when it is
  sparse, no warning is issued.
\<close>

theorem macro_fit_checks:
  "(let l0 = (case lg of None \<Rightarrow> macro_lag (macro w) | Some l \<Rightarrow> l);
        w0 = w\<lparr>macro := (macro w)\<lparr>macro_N := Some n, macro_lag := l0\<rparr>,
               base := (base w)\<lparr>n_macrostates := Some n\<rparr>\<rparr>;
        warned = w0\<lparr>macro := (macro w0)\<lparr>macro_is_sparse := False\<rparr>,
                    issued := issued w @ [Sparse_recommended]\<rparr>
    in (micro_N (micro w) = Some m \<and> n > m - 1 \<longrightarrow>
          macro_fit A n lg meth w = (Raise (AttributeError Too_many_macrostates), w0)) \<and>
       (micro_N (micro w) = Some m \<and> n \<le> m - 1 \<and> n < 4 \<and> macro_is_sparse (macro w) \<longrightarrow>
          macro_fit A n lg meth w = (Raise (AttributeError Too_few_macrostates), w0)) \<and>
       (micro_N (micro w) = Some m \<and> n \<le> m - 1 \<and> n < 4 \<and> \<not> macro_is_sparse (macro w) \<longrightarrow>
          macro_validate n lg w = (Return l0, w0)) \<and>
       (micro_N (micro w) = Some m \<and> n \<le> m - 1 \<and> 4000 \<le> n \<and> \<not> is_sparse (base w) \<longrightarrow>
          macro_validate n lg w = (Return l0, warned) \<and>
          macro_fit A n lg meth w =
            bindE (macro_dispatch A n l0 meth) (\<lambda>_. macro_matrices A l0 meth) warned) \<and>
       (micro_N (micro w) = Some m \<and> n \<le> m - 1 \<and> 4000 \<le> n \<and> is_sparse (base w) \<longrightarrow>
          macro_validate n lg w =
            (Return l0, w0\<lparr>macro := (macro w0)\<lparr>macro_is_sparse := True\<rparr>\<rparr>))) \<and>
   \<not> macro_is_sparse (macro (BaseMacroMSM_init mw))"
  by (auto simp: Let_def macro_fit_def bindE_def macro_validate_def BaseMacroMSM_init_def
      split: option.splits)

theorem macro_fit_checks_witness:
  "macro_fit demo_routines 10 None ''PCCA'' (demo_macro True 10) =
     (Raise (AttributeError Too_many_macrostates),
      (demo_macro True 10)\<lparr>macro := (macro (demo_macro True 10))\<lparr>macro_N := Some 10, macro_lag := 1\<rparr>,
        base := (base (demo_macro True 10))\<lparr>n_macrostates := Some 10\<rparr>\<rparr>) \<and>
   fst (macro_fit demo_routines 3 None ''PCCA''
     ((demo_macro True 10)\<lparr>macro := (macro (demo_macro True 10))\<lparr>macro_is_sparse := True\<rparr>\<rparr>)) =
     Raise (AttributeError Too_few_macrostates) \<and>
   fst (macro_validate 3 None (demo_macro True 10)) = Return 1 \<and>
   issued (snd (macro_validate 4000 None (demo_macro False 5000))) = [Sparse_recommended] \<and>
   fst (macro_fit demo_routines 4000 None ''PCCA'' (demo_macro False 5000)) = Return () \<and>
   issued (snd (macro_validate 4000 None (demo_macro True 5000))) = []"
proof -
  have large: "fst (macro_fit demo_routines 4000 None ''PCCA'' (demo_macro False 5000)) = Return ()"
    by (simp add: demo_macro_fit_large)
  from
    macro_fit_checks [where lg = None and w = "demo_macro True 10" and n = 10 and m = 10
      and A = demo_routines and meth = "''PCCA''"
      and mw = "demo_micro True"]
    macro_fit_checks [where lg = None and n = 3 and m = 10 and A = demo_routines and
      meth = "''PCCA''" and mw = "demo_micro True" and w = "(demo_macro True 10)\<lparr>macro := (macro (demo_macro True 10))\<lparr>macro_is_sparse := True\<rparr>\<rparr>"]
    macro_fit_checks [where lg = None and w = "demo_macro True 10" and n = 3 and m = 10
      and A = demo_routines and meth = "''PCCA''"
      and mw = "demo_micro True"]
    macro_fit_checks [where lg = None and w = "demo_macro False 5000" and n = 4000 and m = 5000
      and A = demo_routines and meth = "''PCCA''"
      and mw = "demo_micro True"]
    macro_fit_checks [where lg = None and w = "demo_macro True 5000" and n = 4000 and m = 5000
      and A = demo_routines and meth = "''PCCA''"
      and mw = "demo_micro True"]
    large
  show ?thesis
    by (simp add: Let_def demo_macro_sel)
qed


text \<open>
  The claim C3 as stated fails, whichever object's flag is meant by the representation.
  Over a sparse \<open>BaseModel\<close> and microstate model, \<open>fit(3)\<close> on a new macrostate model
  returns.  And on a new macrostate model, whose own flag says dense, \<open>fit(4000)\<close> over a
  sparse \<open>BaseModel\<close> issues no warning.
\<close>

theorem macro_fit_sparse_flag_counterexample:
  "is_sparse (base (demo_macro True 10)) \<and>
   micro_is_sparse (micro (demo_macro True 10)) \<and>
   fst (macro_fit demo_routines 3 None ''PCCA'' (demo_macro True 10)) = Return () \<and>
   \<not> macro_is_sparse (macro (demo_macro True 5000)) \<and>
   fst (macro_fit demo_routines 4000 None ''PCCA'' (demo_macro True 5000)) = Return () \<and>
   issued (snd (macro_fit demo_routines 4000 None ''PCCA'' (demo_macro True 5000))) = []"
  by (simp add: demo_macro_sel demo_macro_fit_small demo_macro_fit_large)


section \<open>Queries before a \<open>fit\<close> has succeeded\<close>

lemma only_failed_fits_T: "only_failed_fits A w \<Longrightarrow> micro_T (micro w) = None"
proof (induction rule: only_failed_fits.induct)
  case (fresh b)
  show ?case by (simp add: BaseMicroMSM_init_def)
next
  case (failed w N cen lg kw e w')
  from micro_fit_Raise_T [OF failed.hyps(2)] failed.IH show ?case by simp
qed

lemma demo_micro_fit_bogus_centroids:
  "micro_fit demo_routines None (Some demo_narrow) None (no_kwargs\<lparr>kw_method := Some ''bogus''\<rparr>)
      (demo_micro sp) =
     (Raise (AttributeError (No_attribute ''labels'')),
      (demo_micro sp)\<lparr>micro := (micro (demo_micro sp))\<lparr>centroids := Some demo_narrow,
          micro_N := Some 2\<rparr>,
        base := (base (demo_micro sp))\<lparr>n_microstates := Some 2\<rparr>\<rparr>)"
  by (simp add: micro_fit_def bindE_def fit_classify_def Let_def no_kwargs_def lower_more
      fit_lag_def fit_matrices_def demo_micro_flags demo_narrow_def)

lemma demo_micro_unfit: "only_failed_fits A (demo_micro sp)"
  unfolding demo_micro_def by (rule only_failed_fits.fresh)

lemma demo_strict_fit:
  "micro_fit demo_strict (Some 10) None (Some 0) no_kwargs (demo_micro False) =
     (Raise (ValueError (Other ''lag'')),
      \<lparr>base = (demo_base False)\<lparr>n_microstates := Some 10\<rparr>,
       micro = \<lparr>micro_is_force_db = False, micro_is_reversible = True,
                micro_is_sparse = False, micro_lag = 0, centroids = Some demo_array,
                micro_N = Some 10, micro_labels = Some 3, micro_C = None,
                micro_T = None\<rparr>\<rparr>)"
  by (simp add: demo_micro_def BaseMicroMSM_init_def micro_fit_def bindE_def
      fit_cluster_def no_kwargs_def lower_lits store_clustering_def demo_strict_def
      demo_routines_def fit_lag_def fit_matrices_def demo_base_def)

lemma demo_strict_update:
  "update_micro demo_strict [(''lag'', 1)]
     \<lparr>base = (demo_base False)\<lparr>n_microstates := Some 10\<rparr>,
      micro = \<lparr>micro_is_force_db = False, micro_is_reversible = True,
               micro_is_sparse = False, micro_lag = 0, centroids = Some demo_array,
               micro_N = Some 10, micro_labels = Some 3, micro_C = None,
               micro_T = None\<rparr>\<rparr> =
     (Return (),
      \<lparr>base = (demo_base False)\<lparr>n_microstates := Some 10\<rparr>,
       micro = \<lparr>micro_is_force_db = False, micro_is_reversible = True,
                micro_is_sparse = False, micro_lag = 1, centroids = Some demo_array,
                micro_N = Some 10, micro_labels = Some 3, micro_C = Some 31,
                micro_T = Some 231\<rparr>\<rparr>)"
  by (simp add: micro_count_matrix_at_def micro_transition_matrix_at_def lift_def
      demo_strict_def demo_routines_def estimate_T_def)

text \<open>
  C7, as the code has it.  \<open>transition_matrix\<close>, \<open>stationary_distribution\<close>, \<open>eigenvalues\<close>
  and \<open>mfpt\<close> of a microstate model raise \<open>AttributeError\<close> whenever no transition matrix
  is stored, and none is stored on a model fresh from its constructor nor after calls of
  \<open>fit\<close> that all raised.  \<open>BaseMicroMSM.predict\<close>, and \<open>score\<close> without labels, raise it
  when no centroids are stored; \<open>BaseMacroMSM.predict\<close> raises it when the microstate
  model has no centroids.  On a model fresh from its constructor \<open>count_matrix\<close> and
  \<open>predict\<close> raise it, and so does every query of a macrostate model fresh from its
  constructor.
\<close>

theorem unfit_queries_raise:
  "(micro_T (micro w) = None \<longrightarrow>
      micro_transition_matrix w = Raise (AttributeError Micro_must_be_fit) \<and>
      micro_stationary_distribution A w = Raise (AttributeError (No_attribute ''_T'')) \<and>
      micro_eigenvalues A k ncv w = Raise (AttributeError (No_attribute ''_T'')) \<and>
      micro_mfpt A origin target w = Raise (AttributeError (No_attribute ''_T''))) \<and>
   (only_failed_fits A w \<longrightarrow> micro_T (micro w) = None) \<and>
   (centroids (micro w) = None \<longrightarrow>
      micro_predict A dat method kw w = Raise (AttributeError No_fit_instance) \<and>
      micro_score A dat None kw w = Raise (AttributeError No_fit_instance)) \<and>
   (centroids (micro W) = None \<longrightarrow>
      macro_predict A dat method kw W = Raise (AttributeError Micro_fitting_first)) \<and>
   (let w0 = BaseMicroMSM_init b
    in centroids (micro w0) = None \<and> micro_T (micro w0) = None \<and>
       micro_count_matrix w0 = Raise (AttributeError Micro_must_be_fit) \<and>
       micro_predict A dat method kw w0 = Raise (AttributeError No_fit_instance)) \<and>
   (let W0 = BaseMacroMSM_init w
    in macro_count_matrix W0 = Raise (AttributeError Macro_must_be_fit) \<and>
       macro_transition_matrix W0 = Raise (AttributeError Macro_must_be_fit) \<and>
       macro_stationary_distribution A W0 = Raise (AttributeError (No_attribute ''_T'')) \<and>
       macro_eigenvalues A k ncv W0 = Raise (AttributeError (No_attribute ''_T'')) \<and>
       macro_mfpt A origin target W0 = Raise (AttributeError (No_attribute ''_T'')) \<and>
       macro_score A kw W0 \<in> {Raise (AttributeError (No_attribute ''centroids'')),
                               Raise (AttributeError (No_attribute ''metastable_labels''))})"
proof -
  have unfit: "micro_T (micro w) = None" if "only_failed_fits A w"
    using that by (rule only_failed_fits_T)
  show ?thesis
    by (auto simp: unfit micro_transition_matrix_def micro_stationary_distribution_def
        micro_eigenvalues_def micro_mfpt_def micro_predict_def micro_score_def
        macro_predict_def Let_def BaseMicroMSM_init_def BaseMacroMSM_init_def
        micro_count_matrix_def macro_count_matrix_def macro_transition_matrix_def
        macro_stationary_distribution_def macro_eigenvalues_def macro_mfpt_def macro_score_def
        split: option.splits)
qed

theorem unfit_queries_raise_witness:
  "only_failed_fits demo_routines
     (snd (micro_fit demo_routines None (Some demo_narrow) None
        (no_kwargs\<lparr>kw_method := Some ''bogus''\<rparr>) (demo_micro False))) \<and>
   micro_transition_matrix
     (snd (micro_fit demo_routines None (Some demo_narrow) None
        (no_kwargs\<lparr>kw_method := Some ''bogus''\<rparr>) (demo_micro False))) =
     Raise (AttributeError Micro_must_be_fit) \<and>
   centroids (micro (demo_micro False)) = None \<and>
   micro_T (micro (demo_micro False)) = None \<and>
   micro_transition_matrix (demo_micro False) = Raise (AttributeError Micro_must_be_fit) \<and>
   micro_stationary_distribution demo_routines (demo_micro False) =
     Raise (AttributeError (No_attribute ''_T'')) \<and>
   micro_predict demo_routines demo_array ''KNeighborsClassifier'' no_kwargs (demo_micro False) =
     Raise (AttributeError No_fit_instance) \<and>
   micro_score demo_routines demo_array None no_kwargs (demo_micro False) =
     Raise (AttributeError No_fit_instance) \<and>
   macro_predict demo_routines demo_array ''KNeighborsClassifier'' no_kwargs
     (BaseMacroMSM_init (demo_micro False)) = Raise (AttributeError Micro_fitting_first) \<and>
   macro_transition_matrix (BaseMacroMSM_init (demo_micro False)) =
     Raise (AttributeError Macro_must_be_fit)"
proof -
  let ?s = "snd (micro_fit demo_routines None (Some demo_narrow) None
        (no_kwargs\<lparr>kw_method := Some ''bogus''\<rparr>) (demo_micro False))"
  have c: "centroids (micro (demo_micro False)) = None"
    "micro_T (micro (demo_micro False)) = None"
    "centroids (micro (BaseMacroMSM_init (demo_micro False))) = None"
    by (simp_all add: demo_micro_flags BaseMacroMSM_init_def)
  have f: "only_failed_fits demo_routines ?s"
    by (rule only_failed_fits.failed [OF demo_micro_unfit [of demo_routines False],
          of None "Some demo_narrow" None "no_kwargs\<lparr>kw_method := Some ''bogus''\<rparr>"
             "AttributeError (No_attribute ''labels'')"])
       (simp add: demo_micro_fit_bogus_centroids)
  from unfit_queries_raise
    [of ?s demo_routines None None 0 0 demo_array "''KNeighborsClassifier''"
      no_kwargs "BaseMacroMSM_init (demo_micro False)" "demo_base False"] f
  have after: "micro_transition_matrix ?s = Raise (AttributeError Micro_must_be_fit)"
    by simp
  from unfit_queries_raise
    [of "demo_micro False" demo_routines None None 0 0 demo_array "''KNeighborsClassifier''"
      no_kwargs "BaseMacroMSM_init (demo_micro False)" "demo_base False"] c f after
  show ?thesis
    by (simp add: Let_def)
qed

text \<open>
  The claim C7 as stated fails.  On a model that was never fit, \<open>score\<close> with labels
  given returns.  A \<open>fit\<close> with centroids and an unknown method name raises after storing
  the centroids, and \<open>predict\<close> returns labels afterwards.  A macrostate model that was
  never fit, over a fitted microstate model, returns \<open>None\<close> from \<open>predict\<close> with an
  unknown method name.  And \<open>fit(N=10, lag=0)\<close> with a count matrix routine that refuses
  the lag 0 raises after storing the labels; \<open>update(lag=1)\<close> then returns, and
  \<open>transition_matrix\<close> returns a matrix although no \<open>fit\<close> has succeeded.
\<close>

theorem unfit_queries_counterexample:
  "only_failed_fits demo_routines (demo_micro False) \<and>
   micro_score demo_routines demo_array (Some 3) no_kwargs (demo_micro False) = Return 6 \<and>
   only_failed_fits demo_routines
     (snd (micro_fit demo_routines None (Some demo_narrow) None
        (no_kwargs\<lparr>kw_method := Some ''bogus''\<rparr>) (demo_micro False))) \<and>
   micro_predict demo_routines demo_array ''KNeighborsClassifier'' no_kwargs
     (snd (micro_fit demo_routines None (Some demo_narrow) None
        (no_kwargs\<lparr>kw_method := Some ''bogus''\<rparr>) (demo_micro False))) = Return (Some 1) \<and>
   centroids (micro (demo_macro False 10)) = Some demo_array \<and>
   macro_T (macro (demo_macro False 10)) = None \<and>
   macro_predict demo_routines demo_array ''bogus'' no_kwargs (demo_macro False 10) = Return None \<and>
   fst (micro_fit demo_strict (Some 10) None (Some 0) no_kwargs (demo_micro False)) =
     Raise (ValueError (Other ''lag'')) \<and>
   fst (update_micro demo_strict [(''lag'', 1)]
     (snd (micro_fit demo_strict (Some 10) None (Some 0) no_kwargs (demo_micro False)))) =
     Return () \<and>
   micro_transition_matrix (snd (update_micro demo_strict [(''lag'', 1)]
     (snd (micro_fit demo_strict (Some 10) None (Some 0) no_kwargs (demo_micro False))))) =
     Return 231"
proof -
  have unfit: "only_failed_fits demo_routines
     (snd (micro_fit demo_routines None (Some demo_narrow) None
        (no_kwargs\<lparr>kw_method := Some ''bogus''\<rparr>) (demo_micro False)))"
    by (rule only_failed_fits.failed [OF demo_micro_unfit [of demo_routines False],
          of None "Some demo_narrow" None "no_kwargs\<lparr>kw_method := Some ''bogus''\<rparr>"
             "AttributeError (No_attribute ''labels'')"])
       (simp add: demo_micro_fit_bogus_centroids)
  have score: "micro_score demo_routines demo_array (Some 3) no_kwargs (demo_micro False) = Return 6"
    by (simp add: micro_score_def lift_def demo_routines_def)
  have predict: "micro_predict demo_routines demo_array ''KNeighborsClassifier'' no_kwargs
     (snd (micro_fit demo_routines None (Some demo_narrow) None
        (no_kwargs\<lparr>kw_method := Some ''bogus''\<rparr>) (demo_micro False))) = Return (Some 1)"
    by (simp add: demo_micro_fit_bogus_centroids micro_predict_def lower_lits)
       (simp add: demo_routines_def)
  have mp: "macro_predict demo_routines demo_array ''bogus'' no_kwargs (demo_macro False 10) =
      Return None"
    by (simp add: macro_predict_def demo_macro_sel lower_more)
  have mt: "macro_T (macro (demo_macro False 10)) = None"
    by (simp add: demo_macro_eq)
  have upd: "fst (update_micro demo_strict [(''lag'', 1)]
       (snd (micro_fit demo_strict (Some 10) None (Some 0) no_kwargs (demo_micro False)))) =
       Return ()"
    "micro_transition_matrix (snd (update_micro demo_strict [(''lag'', 1)]
       (snd (micro_fit demo_strict (Some 10) None (Some 0) no_kwargs (demo_micro False))))) =
       Return 231"
    by (simp_all only: demo_strict_fit demo_strict_update snd_conv fst_conv)
       (simp add: micro_transition_matrix_def)
  from unfit score predict mp mt upd demo_micro_unfit [of demo_routines False] show ?thesis
    by (simp add: demo_macro_sel demo_strict_fit)
qed

end
